theory Spec2Isabelle
  imports Main
begin

section \<open>JavaScript strings and arrays\<close>

text \<open>
  Strings are \<^typ>\<open>string\<close>, a \<^typ>\<open>char\<close> standing for the code unit of its number
  (so the strings of the model are those of code units below 256); the operations
  below are the \<^verbatim>\<open>String.prototype\<close>
  and \<^verbatim>\<open>Array.prototype\<close> methods the modelled code calls, with the behaviour
  JavaScript gives them outside the comfortable range written out.
\<close>

definition startsWith :: "string \<Rightarrow> string \<Rightarrow> bool" where
  "startsWith s t = (take (length t) s = t)"

fun includes_js :: "string \<Rightarrow> string \<Rightarrow> bool" where
  "includes_js [] t = (t = [])"
| "includes_js (c # s) t = (startsWith (c # s) t \<or> includes_js s t)"

fun indexOf_from :: "int \<Rightarrow> string \<Rightarrow> char \<Rightarrow> int" where
  "indexOf_from i [] c = - 1"
| "indexOf_from i (d # s) c = (if d = c then i else indexOf_from (i + 1) s c)"

definition indexOf :: "string \<Rightarrow> char \<Rightarrow> int" where
  "indexOf s c = indexOf_from 0 s c"

definition substring :: "string \<Rightarrow> int \<Rightarrow> int \<Rightarrow> string" where
  "substring s a b =
     (let n = int (length s);
          a' = max 0 (min a n);
          b' = max 0 (min b n);
          lo = min a' b';
          hi = max a' b'
      in take (nat (hi - lo)) (drop (nat lo) s))"

text \<open>\<^verbatim>\<open>xs.slice(0, e)\<close>: a negative end counts from the end of the array.\<close>

definition slice0 :: "'a list \<Rightarrow> int \<Rightarrow> 'a list" where
  "slice0 xs e = (if e < 0 then take (nat (int (length xs) + e)) xs else take (nat e) xs)"

text \<open>\<^verbatim>\<open>xs[i]\<close>: \<^verbatim>\<open>undefined\<close> outside the array.\<close>

definition at_index :: "'a list \<Rightarrow> int \<Rightarrow> 'a option" where
  "at_index xs i = (if 0 \<le> i \<and> i < int (length xs) then Some (xs ! nat i) else None)"

section \<open>The session undo stack of \<^verbatim>\<open>VoxPage.tsx\<close>\<close>

definition MAX_SESSION_HISTORY :: nat where
  "MAX_SESSION_HISTORY = 50"

record image_data =
  base64 :: string
  mimeType :: string

record SessionState =
  image :: "image_data option"
  prompt :: string

text \<open>
  The React state of the page that the modelled handlers read and write. The state
  variable \<^verbatim>\<open>prompt\<close> is the field \<open>promptState\<close> (the snapshot record already has a
  field \<open>prompt\<close>), and \<^verbatim>\<open>error\<close> is \<open>errorState\<close>. The three keys the page keeps in
  \<^verbatim>\<open>localStorage\<close> are a map from key to value.
\<close>

record vox_state =
  promptState :: string
  bgUrl1 :: "string option"
  bgUrl2 :: "string option"
  isBg1Active :: bool
  currentImage :: "image_data option"
  currentVideoUrl :: "string option"
  sessionHistory :: "SessionState list"
  historyIndex :: int
  inputImages :: "image_data list"
  isInpaintingMode :: bool
  videoQuota :: int
  errorState :: "string option"
  isGeneratingVideo :: bool
  videoProgress :: string
  localStorage :: "string \<rightharpoonup> string"

definition DAILY_FREE_QUOTA :: int where
  "DAILY_FREE_QUOTA = 3"

text \<open>The initial values of the \<^verbatim>\<open>useState\<close> calls, over an empty \<^verbatim>\<open>localStorage\<close>.\<close>

definition vox_init :: vox_state where
  "vox_init =
     \<lparr>promptState = [], bgUrl1 = None, bgUrl2 = None, isBg1Active = True,
      currentImage = None, currentVideoUrl = None, sessionHistory = [], historyIndex = - 1,
      inputImages = [], isInpaintingMode = False, videoQuota = DAILY_FREE_QUOTA, errorState = None,
      isGeneratingVideo = False, videoProgress = [], localStorage = Map.empty\<rparr>"

datatype vox_exn = TypeError

text \<open>A string or \<^verbatim>\<open>null\<close> in a condition: \<^verbatim>\<open>null\<close> and the empty string are falsy.\<close>

definition truthy :: "string option \<Rightarrow> bool" where
  "truthy v = (case v of None \<Rightarrow> False | Some s \<Rightarrow> s \<noteq> [])"

definition updateCurrentImage :: "string option \<Rightarrow> string option \<Rightarrow> vox_state \<Rightarrow> vox_state" where
  "updateCurrentImage newSrc newMimeType s =
     (let s1 =
        (case newSrc of
           None \<Rightarrow> s\<lparr>currentImage := None, bgUrl1 := None, bgUrl2 := None\<rparr>
         | Some src \<Rightarrow>
             if src = [] then s\<lparr>currentImage := None, bgUrl1 := None, bgUrl2 := None\<rparr>
             else
               (let s0 = (if isBg1Active s then s\<lparr>bgUrl2 := Some src\<rparr> else s\<lparr>bgUrl1 := Some src\<rparr>);
                    mime = (if truthy newMimeType then the newMimeType
                            else substring src (indexOf src (CHR '':'') + 1) (indexOf src (CHR '';'')))
                in s0\<lparr>isBg1Active := \<not> isBg1Active s,
                      currentImage := Some \<lparr>base64 = src, mimeType = mime\<rparr>\<rparr>))
      in if truthy (currentVideoUrl s) then s1\<lparr>currentVideoUrl := None\<rparr> else s1)"

definition pushToSessionHistory :: "image_data option \<Rightarrow> string \<Rightarrow> vox_state \<Rightarrow> vox_state" where
  "pushToSessionHistory img currentPrompt s =
     (let newState = \<lparr>image = img, prompt = currentPrompt\<rparr>;
          newHistory = slice0 (sessionHistory s) (historyIndex s + 1) @ [newState]
      in if length newHistory > MAX_SESSION_HISTORY
         then s\<lparr>sessionHistory := tl newHistory\<rparr>
         else s\<lparr>historyIndex := historyIndex s + 1, sessionHistory := newHistory\<rparr>)"

text \<open>Restoring a snapshot, as both \<^verbatim>\<open>handleUndo\<close> and \<^verbatim>\<open>handleRedo\<close> do.\<close>

definition restore :: "SessionState \<Rightarrow> vox_state \<Rightarrow> vox_state" where
  "restore st s =
     (let s1 = (case image st of
                  Some i \<Rightarrow> updateCurrentImage (Some (base64 i)) (Some (mimeType i)) s
                | None \<Rightarrow> updateCurrentImage None None s)
      in s1\<lparr>promptState := prompt st\<rparr>)"

text \<open>
  A handler that throws has already queued the state updates it made before the
  throw, so the exceptional result carries the state too. Reading \<^verbatim>\<open>prevState.image\<close>
  of an \<^verbatim>\<open>undefined\<close> entry is the one throw of these handlers.
\<close>

definition handleUndo :: "vox_state \<Rightarrow> (vox_exn \<times> vox_state) + vox_state" where
  "handleUndo s =
     (if historyIndex s > 0 then
        (let prevIndex = historyIndex s - 1 in
         case at_index (sessionHistory s) prevIndex of
           None \<Rightarrow> Inl (TypeError, s\<lparr>historyIndex := prevIndex\<rparr>)
         | Some prevState \<Rightarrow> Inr (restore prevState (s\<lparr>historyIndex := prevIndex\<rparr>)))
      else if historyIndex s = 0 then
        Inr ((updateCurrentImage None None (s\<lparr>historyIndex := - 1\<rparr>))\<lparr>promptState := []\<rparr>)
      else Inr s)"

definition handleRedo :: "vox_state \<Rightarrow> (vox_exn \<times> vox_state) + vox_state" where
  "handleRedo s =
     (if historyIndex s < int (length (sessionHistory s)) - 1 then
        (let nextIndex = historyIndex s + 1 in
         case at_index (sessionHistory s) nextIndex of
           None \<Rightarrow> Inl (TypeError, s\<lparr>historyIndex := nextIndex\<rparr>)
         | Some nextState \<Rightarrow> Inr (restore nextState (s\<lparr>historyIndex := nextIndex\<rparr>)))
      else Inr s)"

text \<open>A run of pushes with no undo or redo between them.\<close>

fun push_all :: "(image_data option \<times> string) list \<Rightarrow> vox_state \<Rightarrow> vox_state" where
  "push_all [] s = s"
| "push_all (p # ps) s = push_all ps (pushToSessionHistory (fst p) (snd p) s)"

text \<open>The state a handler leaves behind, thrown or not.\<close>

definition result_state :: "(vox_exn \<times> vox_state) + vox_state \<Rightarrow> vox_state" where
  "result_state r = (case r of Inl (e, t) \<Rightarrow> t | Inr t \<Rightarrow> t)"

text \<open>
  How many times \<^verbatim>\<open>handleUndo\<close> has to run until the cursor is \<open>- 1\<close> (the empty
  document). Below \<open>- 1\<close> the handler changes nothing, so the empty state is never
  reached: \<open>None\<close>.
\<close>

function undo_steps_to_empty :: "vox_state \<Rightarrow> nat option" where
  "undo_steps_to_empty s =
     (if historyIndex s = - 1 then Some 0
      else if historyIndex s < - 1 then None
      else case handleUndo s of
             Inl _ \<Rightarrow> None
           | Inr s' \<Rightarrow> map_option Suc (undo_steps_to_empty s'))"
  by pat_completeness auto
termination
  by (relation "measure (\<lambda>s. nat (historyIndex s + 1))")
     (auto simp: handleUndo_def restore_def updateCurrentImage_def Let_def
        split: if_splits option.splits)

text \<open>A state after two pushes, for the examples.\<close>

definition two_snapshots :: vox_state where
  "two_snapshots =
     push_all [(Some \<lparr>base64 = ''data:image/png;base64,AA'', mimeType = ''image/png''\<rparr>, ''a cat''),
               (Some \<lparr>base64 = ''data:image/png;base64,BB'', mimeType = ''image/png''\<rparr>, ''a dog'')]
       vox_init"


section \<open>The persistent activity store of \<^verbatim>\<open>Root.tsx\<close>\<close>

definition MAX_HISTORY_ITEMS :: nat where
  "MAX_HISTORY_ITEMS = 10"

text \<open>
  What a \<^verbatim>\<open>localStorage\<close> call can throw: a \<^verbatim>\<open>DOMException\<close> with its name, or
  any other value (rendered as text).
\<close>

datatype storage_exn = DOMException string | OtherThrown string

definition isQuotaError :: "storage_exn \<Rightarrow> bool" where
  "isQuotaError e =
     (case e of
        DOMException n \<Rightarrow> n = ''QuotaExceededError'' \<or> n = ''NS_ERROR_DOM_QUOTA_REACHED''
      | OtherThrown _ \<Rightarrow> False)"

record 'item storage_env =
  setItem_throws :: "'item list \<Rightarrow> storage_exn option"
  removeItem_throws :: "storage_exn option"

record 'item root_state =
  history :: "'item list"
  generationHistory :: "'item list option"
  console :: "(string \<times> storage_exn) list"

definition root_init :: "'item root_state" where
  "root_init = \<lparr>history = [], generationHistory = None, console = []\<rparr>"

definition localStorage_setItem ::
  "'item storage_env \<Rightarrow> 'item list \<Rightarrow> 'item root_state \<Rightarrow> storage_exn + 'item root_state" where
  "localStorage_setItem env v s =
     (case setItem_throws env v of
        Some e \<Rightarrow> Inl e
      | None \<Rightarrow> Inr (s\<lparr>generationHistory := Some v\<rparr>))"

definition localStorage_removeItem ::
  "'item storage_env \<Rightarrow> 'item root_state \<Rightarrow> storage_exn + 'item root_state" where
  "localStorage_removeItem env s =
     (case removeItem_throws env of
        Some e \<Rightarrow> Inl e
      | None \<Rightarrow> Inr (s\<lparr>generationHistory := None\<rparr>))"

definition console_error :: "string \<Rightarrow> storage_exn \<Rightarrow> 'item root_state \<Rightarrow> 'item root_state" where
  "console_error msg e s = s\<lparr>console := console s @ [(msg, e)]\<rparr>"

function saveHistory ::
  "'item storage_env \<Rightarrow> 'item list \<Rightarrow> 'item root_state \<Rightarrow> storage_exn + 'item root_state" where
  "saveHistory env historyToSave s =
     (if length historyToSave > 0 then
        (case localStorage_setItem env historyToSave s of
           Inr s1 \<Rightarrow> Inr (s1\<lparr>history := historyToSave\<rparr>)
         | Inl e \<Rightarrow>
             if isQuotaError e then saveHistory env (butlast historyToSave) s
             else Inr (console_error ''Failed to save history to localStorage'' e s))
      else
        (let s1 = (case localStorage_removeItem env s of
                     Inr s' \<Rightarrow> s'
                   | Inl e \<Rightarrow>
                       console_error ''Failed to clear history from localStorage after pruning.'' e s)
         in Inr (s1\<lparr>history := []\<rparr>)))"
  by pat_completeness auto
termination
  by (relation "measure (\<lambda>(env, historyToSave, s). length historyToSave)") auto

definition addToHistory ::
  "'item \<Rightarrow> 'item storage_env \<Rightarrow> 'item root_state \<Rightarrow> storage_exn + 'item root_state" where
  "addToHistory item env s = saveHistory env (take MAX_HISTORY_ITEMS (item # history s)) s"

fun append_all ::
  "('item \<times> 'item storage_env) list \<Rightarrow> 'item root_state \<Rightarrow> storage_exn + 'item root_state" where
  "append_all [] s = Inr s"
| "append_all (a # as) s =
     (case addToHistory (fst a) (snd a) s of
        Inl e \<Rightarrow> Inl e
      | Inr s' \<Rightarrow> append_all as s')"

text \<open>
  The cap on both copies of the history; the candidate that \<^verbatim>\<open>addToHistory\<close> hands to the
  save; and a store that rejects, for capacity, every prefix of a candidate longer than
  \<open>n\<close> records.
\<close>

definition bounded :: "'item root_state \<Rightarrow> bool" where
  "bounded s = (length (history s) \<le> MAX_HISTORY_ITEMS \<and>
                (case generationHistory s of None \<Rightarrow> True | Some v \<Rightarrow> length v \<le> MAX_HISTORY_ITEMS))"

definition candidate :: "'item \<Rightarrow> 'item root_state \<Rightarrow> 'item list" where
  "candidate item s = take MAX_HISTORY_ITEMS (item # history s)"

definition rejected_above :: "'item storage_env \<Rightarrow> 'item list \<Rightarrow> nat \<Rightarrow> bool" where
  "rejected_above env new n =
     (\<forall>k. n < k \<and> k \<le> length new \<longrightarrow>
        (\<exists>q. setItem_throws env (take k new) = Some q \<and> isQuotaError q))"

text \<open>
  Storage behaviours for the examples: a store that rejects every write for capacity
  and then fails to remove the key, one whose write of a single record fails for another
  reason, one with room for a single record, and one with room for all.
\<close>

definition full_store :: "nat storage_env" where
  "full_store = \<lparr>setItem_throws = (\<lambda>v. Some (DOMException ''QuotaExceededError'')),
                  removeItem_throws = Some (DOMException ''SecurityError'')\<rparr>"

definition broken_store :: "nat storage_env" where
  "broken_store = \<lparr>setItem_throws = (\<lambda>v. if length v > 1 then Some (DOMException ''QuotaExceededError'')
                                          else Some (DOMException ''SecurityError'')),
                  removeItem_throws = None\<rparr>"

definition tight_store :: "nat storage_env" where
  "tight_store = \<lparr>setItem_throws = (\<lambda>v. if length v > 1 then Some (DOMException ''QuotaExceededError'')
                                          else None),
                  removeItem_throws = None\<rparr>"

definition roomy_store :: "nat storage_env" where
  "roomy_store = \<lparr>setItem_throws = (\<lambda>v. None), removeItem_throws = None\<rparr>"


section \<open>The video quota of \<^verbatim>\<open>VoxPage.tsx\<close>\<close>

text \<open>
  The quota is a JavaScript number. The model has the integers, with exact arithmetic,
  which is what the code computes on the safe integers, up to
  \<^verbatim>\<open>Number.MAX_SAFE_INTEGER\<close>; beyond it a subtraction rounds, and \<^verbatim>\<open>NaN\<close> is no integer
  at all. \<^verbatim>\<open>n.toString()\<close> of an integer below \<^verbatim>\<open>1e21\<close> in magnitude is its decimal
  digits; from \<^verbatim>\<open>1e21\<close> on JavaScript prints an exponent, which is outside the model:
  \<open>None\<close>.
\<close>

definition MAX_SAFE_INTEGER :: int where
  "MAX_SAFE_INTEGER = 2 ^ 53 - 1"

fun digits :: "nat \<Rightarrow> string" where
  "digits n = (if n < 10 then [''0123456789'' ! n]
               else digits (n div 10) @ [''0123456789'' ! (n mod 10)])"

definition toString_int :: "int \<Rightarrow> string option" where
  "toString_int i =
     (if 10 ^ 21 \<le> \<bar>i\<bar> then None
      else Some (if i < 0 then CHR ''-'' # digits (nat (- i)) else digits (nat i)))"

text \<open>
  What one run of \<^verbatim>\<open>handleGenerateVideo\<close> meets outside the component: whether the
  write of the quota throws (with the \<^verbatim>\<open>message\<close> of what it throws, if it has one), and
  how the remote video call ends (rejected with that \<^verbatim>\<open>message\<close>, or resolved with the
  video URL).
\<close>

record video_run =
  quota_setItem_throws :: "string option option"
  generateVideo_result :: "string option + string"

text \<open>The calls the handler makes to the outside, in the order it makes them.\<close>

datatype vox_event = SetItem string string | GenerateVideo string | AddToHistory

definition updateQuota ::
  "int \<Rightarrow> video_run \<Rightarrow> vox_state \<Rightarrow>
   ((string option \<times> vox_state) + (vox_event list \<times> vox_state)) option" where
  "updateQuota newQuota run s =
     (case toString_int newQuota of
        None \<Rightarrow> None
      | Some str \<Rightarrow>
          (let s1 = s\<lparr>videoQuota := newQuota\<rparr> in
           case quota_setItem_throws run of
             Some m \<Rightarrow> Some (Inl (m, s1))
           | None \<Rightarrow>
               Some (Inr ([SetItem ''vox_video_quota'' str],
                          s1\<lparr>localStorage := (localStorage s1)(''vox_video_quota'' \<mapsto> str)\<rparr>))))"

text \<open>
  A run that subtracts from a quota above \<^verbatim>\<open>Number.MAX_SAFE_INTEGER\<close> is outside the
  model: \<open>None\<close>. Every other run returns what the handler did outside and the new state.
\<close>

definition handleGenerateVideo ::
  "string \<Rightarrow> video_run \<Rightarrow> vox_state \<Rightarrow> (vox_event list \<times> vox_state) option" where
  "handleGenerateVideo motionPrompt run s =
     (case currentImage s of
        None \<Rightarrow> Some ([], s)
      | Some img \<Rightarrow>
          if videoQuota s \<le> 0
          then Some ([], s\<lparr>errorState := Some ''Daily video quota exceeded. Please add tokens.''\<rparr>)
          else if MAX_SAFE_INTEGER < videoQuota s then None
          else
            (let s1 = s\<lparr>isGeneratingVideo := True, videoProgress := ''Initializing Veo 3.1...'',
                        errorState := None\<rparr>
             in case updateQuota (videoQuota s - 1) run s1 of
                  None \<Rightarrow> None
                | Some charged \<Rightarrow>
                    (let (evs, s2) =
                       (case charged of
                          Inl (m, s') \<Rightarrow> ([], s'\<lparr>errorState := m\<rparr>)
                        | Inr (ev, s') \<Rightarrow>
                            (case generateVideo_result run of
                               Inl m \<Rightarrow> (ev @ [GenerateVideo motionPrompt], s'\<lparr>errorState := m\<rparr>)
                             | Inr videoUrl \<Rightarrow>
                                 (ev @ [GenerateVideo motionPrompt, AddToHistory],
                                  s'\<lparr>currentVideoUrl := Some videoUrl\<rparr>)))
                     in Some (evs, s2\<lparr>isGeneratingVideo := False, videoProgress := []\<rparr>))))"

text \<open>Whether a run passed the quota gate: the remote video call was begun.\<close>

fun isVideoCall :: "vox_event \<Rightarrow> bool" where
  "isVideoCall (GenerateVideo p) = True"
| "isVideoCall e = False"

definition consumed :: "vox_event list \<Rightarrow> bool" where
  "consumed evs = list_ex isVideoCall evs"

text \<open>Consecutive runs of the handler; the result lists, per run, whether it passed the gate.\<close>

fun video_attempts ::
  "(string \<times> video_run) list \<Rightarrow> vox_state \<Rightarrow> (bool list \<times> vox_state) option" where
  "video_attempts [] s = Some ([], s)"
| "video_attempts (a # as) s =
     (case handleGenerateVideo (fst a) (snd a) s of
        None \<Rightarrow> None
      | Some (evs, s1) \<Rightarrow>
          (case video_attempts as s1 of
             None \<Rightarrow> None
           | Some (rs, s2) \<Rightarrow> Some (consumed evs # rs, s2)))"

text \<open>A state with an image loaded and two units left, and two runs, for the examples.\<close>

definition with_image :: vox_state where
  "with_image =
     vox_init\<lparr>currentImage := Some \<lparr>base64 = ''data:image/png;base64,AA'', mimeType = ''image/png''\<rparr>,
              videoQuota := 2\<rparr>"

definition video_ok :: video_run where
  "video_ok = \<lparr>quota_setItem_throws = None, generateVideo_result = Inr ''blob:video''\<rparr>"

definition video_fails :: video_run where
  "video_fails = \<lparr>quota_setItem_throws = None, generateVideo_result = Inl (Some ''network error'')\<rparr>"

section \<open>Routing in \<^verbatim>\<open>handleGenerate\<close> and the merge intent of \<^verbatim>\<open>Header.tsx\<close>\<close>

text \<open>
  What \<^verbatim>\<open>String.prototype.trim\<close> strips from both ends: the white space and the line
  terminators of ECMAScript, by code unit. A \<^typ>\<open>char\<close> is the code unit of its number, so
  of these the tab, the line feed, the vertical tab, the form feed, the carriage return,
  the space and the no-break space can occur in a \<^typ>\<open>string\<close>.
\<close>

definition whiteSpace_code_units :: "nat list" where
  "whiteSpace_code_units =
     [0x09, 0x0A, 0x0B, 0x0C, 0x0D, 0x20, 0xA0, 0x1680,
      0x2000, 0x2001, 0x2002, 0x2003, 0x2004, 0x2005, 0x2006, 0x2007, 0x2008, 0x2009, 0x200A,
      0x2028, 0x2029, 0x202F, 0x205F, 0x3000, 0xFEFF]"

definition isWhiteSpace :: "char \<Rightarrow> bool" where
  "isWhiteSpace c = (of_char c \<in> set whiteSpace_code_units)"

definition trim :: "string \<Rightarrow> string" where
  "trim s = rev (dropWhile isWhiteSpace (rev (dropWhile isWhiteSpace s)))"

definition toLowerCase_char :: "char \<Rightarrow> char" where
  "toLowerCase_char c =
     (case map_of (zip ''ABCDEFGHIJKLMNOPQRSTUVWXYZ'' ''abcdefghijklmnopqrstuvwxyz'') c of
        Some d \<Rightarrow> d
      | None \<Rightarrow> c)"

definition toLowerCase :: "string \<Rightarrow> string" where
  "toLowerCase s = map toLowerCase_char s"

datatype operation = Combine | Inpaint | Edit | Generate

text \<open>
  The branch \<^verbatim>\<open>handleGenerate\<close> takes; \<open>None\<close> is the early return on a blank prompt.
  \<open>maskCanvas\<close> says whether \<^verbatim>\<open>maskCanvasRef.current\<close> is set.
\<close>

definition handleGenerate_operation :: "bool \<Rightarrow> vox_state \<Rightarrow> operation option" where
  "handleGenerate_operation maskCanvas s =
     (if trim (promptState s) = [] then None
      else if length (inputImages s) > 1 then Some Combine
      else if isInpaintingMode s \<and> currentImage s \<noteq> None \<and> maskCanvas then Some Inpaint
      else if currentImage s \<noteq> None then Some Edit
      else Some Generate)"

text \<open>
  The merge intent of an instruction, as the chat router of \<^verbatim>\<open>Header.tsx\<close>
  (\<^verbatim>\<open>handleSendMessage\<close>) tests it.
\<close>

definition impliesMergeIntent :: "string \<Rightarrow> bool" where
  "impliesMergeIntent currentInput =
     (includes_js (toLowerCase currentInput) ''combine'' \<or>
      includes_js (toLowerCase currentInput) ''merge'')"

definition two_staged :: vox_state where
  "two_staged =
     vox_init\<lparr>promptState := ''make it blue'',
              inputImages := [\<lparr>base64 = ''data:image/png;base64,AA'', mimeType = ''image/png''\<rparr>,
                              \<lparr>base64 = ''data:image/png;base64,BB'', mimeType = ''image/png''\<rparr>]\<rparr>"

section \<open>The image tray of \<^verbatim>\<open>VoxPage.tsx\<close>\<close>

text \<open>
  A file handed to \<^verbatim>\<open>handleFileUpload\<close>: what its \<^verbatim>\<open>FileReader\<close> loads (\<open>None\<close> when
  the read fails and \<^verbatim>\<open>onload\<close> never runs) and its \<^verbatim>\<open>type\<close>. The list is in the
  order the reads complete.
\<close>

record file_read =
  result :: "string option"
  file_type :: string

definition handleFileUpload :: "file_read list \<Rightarrow> vox_state \<Rightarrow> vox_state" where
  "handleFileUpload files s =
     (if files = [] then s
      else if length files = 1 \<and> length (inputImages s) = 0 then
        (case result (hd files) of
           None \<Rightarrow> s
         | Some b \<Rightarrow>
             (let s1 = updateCurrentImage (Some b) (Some (file_type (hd files))) s;
                  s2 = pushToSessionHistory (Some \<lparr>base64 = b, mimeType = file_type (hd files)\<rparr>)
                         (promptState s) s1
              in s2\<lparr>currentVideoUrl := None, isInpaintingMode := False\<rparr>))
      else
        (let newImages = concat (map (\<lambda>f. if truthy (result f)
                                             then [\<lparr>base64 = the (result f), mimeType = file_type f\<rparr>]
                                             else []) files)
         in if length newImages = length files
            then (let s1 = s\<lparr>inputImages := take 6 (inputImages s @ newImages)\<rparr>
                  in case newImages of
                       [] \<Rightarrow> s1
                     | first # _ \<Rightarrow> updateCurrentImage (Some (base64 first)) (Some (mimeType first)) s1)
            else s))"

definition handleRemoveFromTray :: "int \<Rightarrow> vox_state \<Rightarrow> vox_state" where
  "handleRemoveFromTray index s =
     s\<lparr>inputImages := map snd (filter (\<lambda>p. int (fst p) \<noteq> index)
                                  (zip [0 ..< length (inputImages s)] (inputImages s)))\<rparr>"

text \<open>
  The handlers that write the tray: an upload, a removal, and the reset to the empty tray
  that \<^verbatim>\<open>handleGenerate\<close> (after a combine) and \<^verbatim>\<open>handleHistorySelect\<close> make.
\<close>

datatype tray_action = Upload "file_read list" | RemoveFromTray int | ResetTray

fun tray_step :: "tray_action \<Rightarrow> vox_state \<Rightarrow> vox_state" where
  "tray_step (Upload files) s = handleFileUpload files s"
| "tray_step (RemoveFromTray i) s = handleRemoveFromTray i s"
| "tray_step ResetTray s = s\<lparr>inputImages := []\<rparr>"

fun tray_run :: "tray_action list \<Rightarrow> vox_state \<Rightarrow> vox_state" where
  "tray_run [] s = s"
| "tray_run (a # as) s = tray_run as (tray_step a s)"

text \<open>Eight files that all load, for the examples.\<close>

definition eight_files :: "file_read list" where
  "eight_files = replicate 8 \<lparr>result = Some ''data:image/png;base64,AA'', file_type = ''image/png''\<rparr>"


section \<open>The service layer: errors and \<^verbatim>\<open>executeWithApiKeyHandling\<close>\<close>

text \<open>
  A thrown object, as far as the service layer looks at it: whether it is an
  \<^verbatim>\<open>Error\<close>, its \<^verbatim>\<open>message\<close> when that is a string, what \<^verbatim>\<open>toString()\<close> gives, the
  numbers \<^verbatim>\<open>status\<close> and \<^verbatim>\<open>code\<close>, and the \<^verbatim>\<open>code\<close> and \<^verbatim>\<open>message\<close> of a nested
  \<^verbatim>\<open>error\<close> object. A thrown primitive behaves in both functions below as an object
  with none of these fields. \<^verbatim>\<open>null\<close> and \<^verbatim>\<open>undefined\<close> can be thrown too. An \<^verbatim>\<open>Error\<close>
  carries a string \<^verbatim>\<open>message\<close>; one whose message was replaced by something else is
  outside the model.
\<close>

record js_object =
  instanceofError :: bool
  message :: "string option"
  toString :: string
  status :: "int option"
  code :: "int option"
  inner :: "(int option \<times> string option) option"

datatype thrown = Nullish | Thrown js_object

definition new_Error :: "string \<Rightarrow> thrown" where
  "new_Error m =
     Thrown \<lparr>instanceofError = True, message = Some m,
             toString = (if m = [] then ''Error'' else ''Error: '' @ m),
             status = None, code = None, inner = None\<rparr>"

definition new_TypeError :: "string \<Rightarrow> thrown" where
  "new_TypeError m =
     Thrown \<lparr>instanceofError = True, message = Some m,
             toString = (if m = [] then ''TypeError'' else ''TypeError: '' @ m),
             status = None, code = None, inner = None\<rparr>"

text \<open>\<^verbatim>\<open>error.message || error.toString()\<close>\<close>

definition message_or_toString :: "js_object \<Rightarrow> string" where
  "message_or_toString e = (if truthy (message e) then the (message e) else toString e)"

definition inner_code :: "js_object \<Rightarrow> int option" where
  "inner_code e = (case inner e of None \<Rightarrow> None | Some (c, m) \<Rightarrow> c)"

definition isPermissionDenied :: "js_object \<Rightarrow> bool" where
  "isPermissionDenied e =
     (includes_js (message_or_toString e) ''does not have permission'' \<or>
      includes_js (message_or_toString e) ''PERMISSION_DENIED'' \<or>
      status e = Some 403 \<or> code e = Some 403 \<or> inner_code e = Some 403)"

definition isNotFound :: "js_object \<Rightarrow> bool" where
  "isNotFound e =
     (includes_js (message_or_toString e) ''Requested entity was not found'' \<or>
      includes_js (message_or_toString e) ''NOT_FOUND'' \<or>
      status e = Some 404 \<or> code e = Some 404 \<or> inner_code e = Some 404)"

text \<open>The errors after which the key selection is tried: a 403 or a 404, in any of their shapes.\<close>

definition reauth_eligible :: "thrown \<Rightarrow> bool" where
  "reauth_eligible error = (case error of Nullish \<Rightarrow> False | Thrown e \<Rightarrow> isPermissionDenied e \<or> isNotFound e)"

text \<open>
  An asynchronous call over a world \<open>'w\<close> of everything outside: it settles, rejected
  (\<open>Inl\<close>) or resolved (\<open>Inr\<close>), in a new world, or never settles (\<open>None\<close>).

  \<^verbatim>\<open>executeWithApiKeyHandling\<close> takes the thunk and \<^verbatim>\<open>window.aistudio\<close> (\<open>None\<close> when
  there is no such object; else its \<^verbatim>\<open>openSelectKey\<close>).
\<close>

type_synonym ('a, 'w) async = "'w \<Rightarrow> ((thrown + 'a) \<times> 'w) option"

definition executeWithApiKeyHandling ::
  "('a, 'w) async \<Rightarrow> (unit, 'w) async option \<Rightarrow> ('a, 'w) async" where
  "executeWithApiKeyHandling fn aistudio w =
     (case fn w of
        None \<Rightarrow> None
      | Some (Inr v, w1) \<Rightarrow> Some (Inr v, w1)
      | Some (Inl error, w1) \<Rightarrow>
          (case error of
             Nullish \<Rightarrow> Some (Inl (new_TypeError ''Cannot read properties of null''), w1)
           | Thrown e \<Rightarrow>
               if isPermissionDenied e \<or> isNotFound e then
                 (case aistudio of
                    None \<Rightarrow> Some (Inl error, w1)
                  | Some openSelectKey \<Rightarrow>
                      (case openSelectKey w1 of
                         None \<Rightarrow> None
                       | Some (Inl e1, w2) \<Rightarrow> Some (Inl error, w2)
                       | Some (Inr u, w2) \<Rightarrow>
                           (case fn w2 of
                              None \<Rightarrow> None
                            | Some (Inr v, w3) \<Rightarrow> Some (Inr v, w3)
                            | Some (Inl e2, w3) \<Rightarrow> Some (Inl error, w3))))
               else Some (Inl error, w1)))"

text \<open>
  For counting calls, the world is the list of calls made so far, and a thunk (or the
  key selection) is any function of that list.
\<close>

datatype api_call = ThunkCall | OpenSelectKey

definition thunk_of :: "(api_call list \<Rightarrow> thrown + 'a) \<Rightarrow> ('a, api_call list) async" where
  "thunk_of behaviour w = Some (behaviour w, w @ [ThunkCall])"

definition selection_of :: "(api_call list \<Rightarrow> thrown + unit) \<Rightarrow> (unit, api_call list) async" where
  "selection_of behaviour w = Some (behaviour w, w @ [OpenSelectKey])"

text \<open>For the examples: a 403 from the service, and a thunk that fails with it on its first run.\<close>

definition denied :: js_object where
  "denied =
     \<lparr>instanceofError = True, message = Some ''The caller does not have permission'',
      toString = ''Error: The caller does not have permission'',
      status = Some 403, code = None, inner = None\<rparr>"

definition denied_then :: "thrown + 'a \<Rightarrow> api_call list \<Rightarrow> thrown + 'a" where
  "denied_then second calls = (if calls = [] then Inl (Thrown denied) else second)"

definition parseGeminiError :: "thrown \<Rightarrow> string" where
  "parseGeminiError error =
     (let message0 = ''An unknown and unexpected error occurred. Please try again.'';
          msg = (case error of
                   Nullish \<Rightarrow> message0
                 | Thrown e \<Rightarrow>
                     if instanceofError e then (case message e of Some m \<Rightarrow> m | None \<Rightarrow> message0)
                     else (case inner e of
                             Some (c, Some m) \<Rightarrow> m
                           | _ \<Rightarrow> (case message e of Some m \<Rightarrow> m | None \<Rightarrow> message0)));
          lowerMessage = toLowerCase msg
      in if includes_js msg ''Requested entity was not found.''
         then ''The requested AI model is not available with your current API key. Please ensure your key has access to Gemini 3.0 Preview models.''
         else if includes_js msg ''does not have permission'' \<or> includes_js msg ''PERMISSION_DENIED''
         then ''Permission denied. Your API key does not have access to this model. Please select a different key or check your Google Cloud project permissions.''
         else if includes_js lowerMessage ''xhr error'' \<or> includes_js lowerMessage ''network error'' \<or>
                 includes_js lowerMessage ''failed to fetch''
         then ''A network connection error occurred. Please check your internet connection and try again. The API service may be temporarily unavailable.''
         else if startsWith msg ''Model refusal:'' then msg
         else if includes_js lowerMessage ''safety policies'' \<or> includes_js lowerMessage ''blocked''
         then ''Your request was blocked due to safety policies. Please adjust your prompt and try again.''
         else if includes_js lowerMessage ''api key not valid''
         then ''The provided API key is invalid. Please ensure it is configured correctly.''
         else if includes_js lowerMessage ''quota''
         then ''API quota exceeded. Please check your usage and limits.''
         else if includes_js lowerMessage ''resource has been exhausted'' \<or>
                 includes_js lowerMessage ''rate limit''
         then ''The server is busy or you have hit a rate limit. Please try again in a moment.''
         else ''An unexpected API error occurred: '' @ msg)"

section \<open>The service functions \<^verbatim>\<open>generateImagesFromPrompt\<close>, \<^verbatim>\<open>combineImages\<close>, \<^verbatim>\<open>generateVideo\<close>\<close>

text \<open>
  The world of a service call is the list of what it has done outside so far. The
  environment answers each outside call by its number (the count of earlier calls of
  its kind), so any behaviour of the remote service, of the browser and of the user can
  be given.
\<close>

datatype svc_event =
    GenerateContent "int option"
  | GenerateVideos
  | GetVideosOperation
  | Wait
  | CheckCancelled bool
  | Progress "string option"
  | Fetch string
  | SelectKey

record part =
  inlineData :: "(string \<times> string) option"
  text_of :: "string option"

record video_operation =
  isDone :: bool
  uri :: "string option"

record fetch_response =
  ok :: bool
  statusText :: string
  blob_url :: "thrown + string"

record service_env =
  API_KEY :: "string option"
  aistudio :: "(nat \<Rightarrow> (thrown + unit) option) option"
  resizeImage :: "string \<Rightarrow> thrown + (string \<times> string)"
  generateContent :: "nat \<Rightarrow> thrown + part list option"
  random_seed :: "nat \<Rightarrow> int"
  generateVideos :: "nat \<Rightarrow> thrown + video_operation"
  getVideosOperation :: "nat \<Rightarrow> thrown + video_operation"
  isCancelledRef :: "nat \<Rightarrow> bool"
  fetch :: "nat \<Rightarrow> thrown + fetch_response"

fun isGenerateContent :: "svc_event \<Rightarrow> bool" where
  "isGenerateContent (GenerateContent s) = True"
| "isGenerateContent e = False"



definition count_events :: "(svc_event \<Rightarrow> bool) \<Rightarrow> svc_event list \<Rightarrow> nat" where
  "count_events p w = length (filter p w)"

definition window_aistudio :: "service_env \<Rightarrow> (unit, svc_event list) async option" where
  "window_aistudio env =
     (case aistudio env of
        None \<Rightarrow> None
      | Some openSelectKey \<Rightarrow>
          Some (\<lambda>w. case openSelectKey (count_events (\<lambda>e. e = SelectKey) w) of
                       None \<Rightarrow> None
                     | Some r \<Rightarrow> Some (r, w @ [SelectKey])))"

definition API_KEY_error :: thrown where
  "API_KEY_error = new_Error ''API_KEY environment variable is not set. Please select a key.''"

text \<open>The loop over the parts of a response: the images and the refusal text.\<close>

definition collect_part :: "string list \<times> string option \<Rightarrow> part \<Rightarrow> string list \<times> string option" where
  "collect_part acc p =
     (case inlineData p of
        Some (mime, dat) \<Rightarrow> (fst acc @ [''data:'' @ mime @ '';base64,'' @ dat], snd acc)
      | None \<Rightarrow>
          if truthy (text_of p)
          then (fst acc, Some ((if truthy (snd acc) then the (snd acc) else []) @ the (text_of p)))
          else acc)"

definition collect_parts :: "part list option \<Rightarrow> string list \<times> string option" where
  "collect_parts parts =
     (case parts of None \<Rightarrow> ([], None) | Some ps \<Rightarrow> foldl collect_part ([], None) ps)"

text \<open>The \<^verbatim>\<open>catch\<close> of every service thunk: rethrow as a fresh \<^verbatim>\<open>Error\<close>.\<close>

definition rethrow_parsed :: "((thrown + 'a) \<times> 'w) option \<Rightarrow> ((thrown + 'a) \<times> 'w) option" where
  "rethrow_parsed r =
     (case r of
        None \<Rightarrow> None
      | Some (Inl e, w) \<Rightarrow> Some (Inl (new_Error (parseGeminiError e)), w)
      | Some (Inr v, w) \<Rightarrow> Some (Inr v, w))"

record ImageSettings =
  model :: string
  numberOfImages :: nat
  aspectRatio :: string

record generated =
  images :: "string list"
  seed :: int



text \<open>\<^verbatim>\<open>Promise.all\<close> over the resized images: the first rejection wins.\<close>

fun resize_all :: "service_env \<Rightarrow> image_data list \<Rightarrow> thrown + (string \<times> string) list" where
  "resize_all env [] = Inr []"
| "resize_all env (i # is) =
     (case resizeImage env (base64 i) of
        Inl e \<Rightarrow> Inl e
      | Inr r \<Rightarrow> (case resize_all env is of Inl e \<Rightarrow> Inl e | Inr rs \<Rightarrow> Inr (r # rs)))"

definition combineImages_thunk ::
  "service_env \<Rightarrow> image_data list \<Rightarrow> string \<Rightarrow> (string list, svc_event list) async" where
  "combineImages_thunk env imgs masterPrompt w =
     rethrow_parsed
       (if \<not> truthy (API_KEY env) then Some (Inl API_KEY_error, w)
        else if length imgs < 2 \<or> length imgs > 6
        then Some (Inl (new_Error ''Combining requires 2 to 6 images.''), w)
        else
          (case resize_all env imgs of
             Inl e \<Rightarrow> Some (Inl e, w)
           | Inr resizedImages \<Rightarrow>
               (let n = count_events isGenerateContent w;
                    w1 = w @ [GenerateContent None]
                in case generateContent env n of
                     Inl e \<Rightarrow> Some (Inl e, w1)
                   | Inr response \<Rightarrow>
                       (let (resultImages, refusalText) = collect_parts response in
                        if length resultImages = 0 then
                          (if truthy refusalText
                           then Some (Inl (new_Error (''Model refusal: '' @ the refusalText)), w1)
                           else Some (Inl (new_Error ''The model did not return a combined image. It may have refused the request due to safety policies or an unclear prompt.''), w1))
                        else Some (Inr resultImages, w1)))))"

definition combineImages ::
  "service_env \<Rightarrow> image_data list \<Rightarrow> string \<Rightarrow> ((thrown + string list) \<times> svc_event list) option" where
  "combineImages env imgs masterPrompt =
     executeWithApiKeyHandling (combineImages_thunk env imgs masterPrompt) (window_aistudio env) []"








text \<open>
  An environment for the examples: a key is set, there is no \<^verbatim>\<open>window.aistudio\<close>, the
  model answers with two images, a video operation is not done when submitted and done
  at the first poll, and the cancellation flag is set.
\<close>

definition demo_env :: service_env where
  "demo_env =
     \<lparr>API_KEY = Some ''key'', aistudio = None,
      resizeImage = (\<lambda>b. Inr (b, ''image/png'')),
      generateContent = (\<lambda>n. Inr (Some [\<lparr>inlineData = Some (''image/png'', ''AAAA''), text_of = None\<rparr>,
                                          \<lparr>inlineData = Some (''image/png'', ''BBBB''), text_of = None\<rparr>])),
      random_seed = (\<lambda>n. 7),
      generateVideos = (\<lambda>n. Inr \<lparr>isDone = False, uri = None\<rparr>),
      getVideosOperation = (\<lambda>n. Inr \<lparr>isDone = True, uri = Some ''https://video''\<rparr>),
      isCancelledRef = (\<lambda>n. True),
      fetch = (\<lambda>n. Inr \<lparr>ok = True, statusText = ''OK'', blob_url = Inr ''blob:1''\<rparr>)\<rparr>"


section \<open>Properties of the session undo stack\<close>

lemma updateCurrentImage_stack [simp]:
  "sessionHistory (updateCurrentImage a b s) = sessionHistory s"
  "historyIndex (updateCurrentImage a b s) = historyIndex s"
  by (simp_all add: updateCurrentImage_def Let_def split: option.splits)

lemma restore_stack [simp]:
  "sessionHistory (restore st s) = sessionHistory s"
  "historyIndex (restore st s) = historyIndex s"
  by (simp_all add: restore_def Let_def split: option.splits)

declare undo_steps_to_empty.simps [simp del]

lemma slice0_tail: "slice0 xs (int (length xs)) = xs"
  by (simp add: slice0_def)

lemma push_at_tail:
  assumes "historyIndex s = int (length (sessionHistory s)) - 1"
    and "length (sessionHistory s) \<le> MAX_SESSION_HISTORY"
  shows "historyIndex (pushToSessionHistory img p s) =
           int (length (sessionHistory (pushToSessionHistory img p s))) - 1
         \<and> length (sessionHistory (pushToSessionHistory img p s)) =
           min (Suc (length (sessionHistory s))) MAX_SESSION_HISTORY"
  using assms by (auto simp: pushToSessionHistory_def Let_def slice0_tail MAX_SESSION_HISTORY_def)

lemma push_all_at_tail:
  assumes "historyIndex s = int (length (sessionHistory s)) - 1"
    and "length (sessionHistory s) \<le> MAX_SESSION_HISTORY"
  shows "historyIndex (push_all ps s) = int (length (sessionHistory (push_all ps s))) - 1
         \<and> length (sessionHistory (push_all ps s)) =
           min (length (sessionHistory s) + length ps) MAX_SESSION_HISTORY"
  using assms
proof (induction ps arbitrary: s)
  case Nil
  then show ?case by simp
next
  case (Cons p ps)
  let ?s' = "pushToSessionHistory (fst p) (snd p) s"
  from push_at_tail [OF Cons.prems] have
    t: "historyIndex ?s' = int (length (sessionHistory ?s')) - 1"
    and l: "length (sessionHistory ?s') = min (Suc (length (sessionHistory s))) MAX_SESSION_HISTORY"
    by blast+
  from l have b: "length (sessionHistory ?s') \<le> MAX_SESSION_HISTORY" by simp
  from Cons.IH [OF t b] l show ?case by (auto simp: min_def)
qed

lemma undo_steps_in_range:
  "- 1 \<le> historyIndex s \<Longrightarrow> historyIndex s < int (length (sessionHistory s)) \<Longrightarrow>
   undo_steps_to_empty s = Some (nat (historyIndex s + 1))"
proof (induction s rule: undo_steps_to_empty.induct)
  case (1 s)
  show ?case
  proof (cases "historyIndex s = - 1")
    case True
    then show ?thesis by (simp add: undo_steps_to_empty.simps)
  next
    case False
    with "1.prems" have pos: "0 \<le> historyIndex s" by simp
    show ?thesis
    proof (cases "historyIndex s = 0")
      case True
      then show ?thesis
        by (simp add: undo_steps_to_empty.simps [of s] handleUndo_def
            undo_steps_to_empty.simps [of "updateCurrentImage None None (s\<lparr>historyIndex := - 1\<rparr>)\<lparr>promptState := []\<rparr>"])
    next
      case nz: False
      with pos have gt: "0 < historyIndex s" by simp
      with "1.prems" obtain st where st: "at_index (sessionHistory s) (historyIndex s - 1) = Some st"
        by (auto simp: at_index_def)
      let ?s' = "restore st (s\<lparr>historyIndex := historyIndex s - 1\<rparr>)"
      have u: "handleUndo s = Inr ?s'" using gt st by (simp add: handleUndo_def)
      have "undo_steps_to_empty ?s' = Some (nat (historyIndex ?s' + 1))"
        using "1.IH" [of ?s'] False pos u "1.prems" gt by simp
      then show ?thesis using gt u False
        by (simp add: undo_steps_to_empty.simps [of s] nat_add_distrib) 
    qed
  qed
qed

text \<open>
  Claim C3, as the code has it. After any run of \<open>k\<close> pushes from the empty stack (no
  undo or redo between them) the stored stack holds at most \<open>MAX_SESSION_HISTORY = 50\<close>
  snapshots, and undo run repeatedly from there reaches the empty state (cursor \<open>- 1\<close>)
  in exactly \<open>min k 50\<close> steps: the cursor of a stack of \<open>n\<close> snapshots is \<open>n - 1\<close>, and
  each undo lowers it by one.
\<close>

theorem session_stack_bounded_and_undo_steps:
  "length (sessionHistory (push_all ps vox_init)) \<le> MAX_SESSION_HISTORY \<and>
   undo_steps_to_empty (push_all ps vox_init) = Some (min (length ps) MAX_SESSION_HISTORY)"
proof -
  have i: "historyIndex vox_init = int (length (sessionHistory vox_init)) - 1"
    and b: "length (sessionHistory vox_init) \<le> MAX_SESSION_HISTORY"
    by (simp_all add: vox_init_def)
  from push_all_at_tail [OF i b, of ps] have
    t: "historyIndex (push_all ps vox_init) = int (length (sessionHistory (push_all ps vox_init))) - 1"
    and l: "length (sessionHistory (push_all ps vox_init)) = min (length ps) MAX_SESSION_HISTORY"
    by (simp_all add: vox_init_def)
  have "undo_steps_to_empty (push_all ps vox_init) = Some (nat (historyIndex (push_all ps vox_init) + 1))"
    by (rule undo_steps_in_range) (simp_all add: t)
  with t l show ?thesis by simp
qed

text \<open>
  The count \<open>min k 50 + 1\<close> of the claim is one too many: after one push, a single undo
  already reaches the empty state.
\<close>

theorem undo_steps_counterexample:
  "undo_steps_to_empty (push_all [(None, ''a'')] vox_init) \<noteq> Some (min 1 MAX_SESSION_HISTORY + 1)"
  by (simp add: undo_steps_to_empty.simps vox_init_def pushToSessionHistory_def slice0_def
      MAX_SESSION_HISTORY_def handleUndo_def updateCurrentImage_def truthy_def)

lemma handleUndo_keeps_stack: "sessionHistory (result_state (handleUndo t)) = sessionHistory t"
  by (simp add: handleUndo_def result_state_def Let_def split: option.splits)

lemma handleRedo_keeps_stack: "sessionHistory (result_state (handleRedo t)) = sessionHistory t"
  by (simp add: handleRedo_def result_state_def Let_def split: option.splits)

lemma restore_prompt: "promptState (restore st s) = prompt st"
  by (simp add: restore_def Let_def)

lemma restore_image:
  "currentImage (restore st s) =
     (case image st of
        None \<Rightarrow> None
      | Some i \<Rightarrow>
          if base64 i = [] then None
          else Some \<lparr>base64 = base64 i,
                     mimeType = (if mimeType i \<noteq> [] then mimeType i
                                 else substring (base64 i) (indexOf (base64 i) (CHR '':'') + 1)
                                        (indexOf (base64 i) (CHR '';'')))\<rparr>)"
  by (simp add: restore_def updateCurrentImage_def Let_def truthy_def split: option.splits)

lemma undo_in_range:
  assumes "0 \<le> historyIndex s" "historyIndex s < int (length (sessionHistory s))"
  shows "\<exists>s1. handleUndo s = Inr s1 \<and> historyIndex s1 = historyIndex s - 1 \<and>
           sessionHistory s1 = sessionHistory s"
  using assms by (auto simp: handleUndo_def at_index_def Let_def)

text \<open>
  Claim C6. In a state whose cursor points at a snapshot, undo followed by redo (no push
  between them) returns the cursor to that snapshot and restores its prompt and its
  image payload; the stored snapshots are the same after each of the two steps. The
  claim asks this from cursor \<open>1\<close> on; it holds from cursor \<open>0\<close> on. A snapshot whose
  payload is the empty string is restored as no image, as \<^verbatim>\<open>updateCurrentImage\<close> takes
  an empty source for none. For any state \<open>t\<close> at all, neither handler changes the
  stored snapshots.
\<close>

theorem undo_then_redo_restores_snapshot:
  assumes "0 \<le> historyIndex s" and "historyIndex s < int (length (sessionHistory s))"
  shows "\<exists>s1 s2 snap.
           at_index (sessionHistory s) (historyIndex s) = Some snap \<and>
           handleUndo s = Inr s1 \<and> handleRedo s1 = Inr s2 \<and>
           historyIndex s2 = historyIndex s \<and>
           sessionHistory s1 = sessionHistory s \<and> sessionHistory s2 = sessionHistory s \<and>
           promptState s2 = prompt snap \<and>
           map_option base64 (currentImage s2) =
             (case image snap of None \<Rightarrow> None
              | Some i \<Rightarrow> if base64 i = [] then None else Some (base64 i)) \<and>
           sessionHistory (result_state (handleUndo t)) = sessionHistory t \<and>
           sessionHistory (result_state (handleRedo t)) = sessionHistory t"
proof -
  from undo_in_range [OF assms] obtain s1 where
    u: "handleUndo s = Inr s1" and i1: "historyIndex s1 = historyIndex s - 1"
    and h1: "sessionHistory s1 = sessionHistory s" by blast
  define snap where "snap = sessionHistory s ! nat (historyIndex s)"
  have a: "at_index (sessionHistory s) (historyIndex s) = Some snap"
    using assms by (simp add: at_index_def snap_def)
  let ?s2 = "restore snap (s1\<lparr>historyIndex := historyIndex s\<rparr>)"
  have r: "handleRedo s1 = Inr ?s2"
    using assms i1 h1 a by (simp add: handleRedo_def)
  have p: "map_option base64 (currentImage ?s2) =
             (case image snap of None \<Rightarrow> None
              | Some i \<Rightarrow> if base64 i = [] then None else Some (base64 i))"
    by (simp add: restore_image split: option.splits)
  show ?thesis
    using a u r h1 p
    by (simp add: restore_prompt handleUndo_keeps_stack handleRedo_keeps_stack)
qed

theorem undo_then_redo_witness:
  "\<exists>s1 s2. handleUndo two_snapshots = Inr s1 \<and> handleRedo s1 = Inr s2 \<and>
      historyIndex s2 = 1 \<and> sessionHistory s2 = sessionHistory two_snapshots \<and>
      promptState s2 = ''a dog'' \<and>
      map_option base64 (currentImage s2) = Some ''data:image/png;base64,BB''"
proof -
  have i: "historyIndex two_snapshots = 1"
    and h: "sessionHistory two_snapshots =
      [\<lparr>image = Some \<lparr>base64 = ''data:image/png;base64,AA'', mimeType = ''image/png''\<rparr>,
        prompt = ''a cat''\<rparr>,
       \<lparr>image = Some \<lparr>base64 = ''data:image/png;base64,BB'', mimeType = ''image/png''\<rparr>,
        prompt = ''a dog''\<rparr>]"
    by (simp_all add: two_snapshots_def vox_init_def pushToSessionHistory_def slice0_def
        MAX_SESSION_HISTORY_def)
  have "0 \<le> historyIndex two_snapshots"
    and "historyIndex two_snapshots < int (length (sessionHistory two_snapshots))"
    by (simp_all add: i h)
  from undo_then_redo_restores_snapshot [OF this, of two_snapshots] show ?thesis
    by (auto simp: i h at_index_def)
qed


section \<open>Properties of the persistent activity store\<close>

declare saveHistory.simps [simp del]

lemma saveHistory_empty:
  "saveHistory env [] s =
     Inr ((case removeItem_throws env of
             None \<Rightarrow> s\<lparr>generationHistory := None\<rparr>
           | Some e \<Rightarrow> console_error ''Failed to clear history from localStorage after pruning.'' e s)
          \<lparr>history := []\<rparr>)"
  by (simp add: saveHistory.simps [of env "[]" s] localStorage_removeItem_def split: option.splits)

lemma saveHistory_stored:
  "new \<noteq> [] \<Longrightarrow> setItem_throws env new = None \<Longrightarrow>
   saveHistory env new s = Inr (s\<lparr>generationHistory := Some new, history := new\<rparr>)"
  by (simp add: saveHistory.simps [of env new s] localStorage_setItem_def)

lemma saveHistory_quota:
  "new \<noteq> [] \<Longrightarrow> setItem_throws env new = Some e \<Longrightarrow> isQuotaError e \<Longrightarrow>
   saveHistory env new s = saveHistory env (butlast new) s"
  by (simp add: saveHistory.simps [of env new s] localStorage_setItem_def)

lemma saveHistory_other:
  "new \<noteq> [] \<Longrightarrow> setItem_throws env new = Some e \<Longrightarrow> \<not> isQuotaError e \<Longrightarrow>
   saveHistory env new s = Inr (console_error ''Failed to save history to localStorage'' e s)"
  by (simp add: saveHistory.simps [of env new s] localStorage_setItem_def)

lemma rejected_above_snoc:
  assumes "n \<le> length xs" and "rejected_above env xs n"
    and "setItem_throws env (xs @ [x]) = Some q" and "isQuotaError q"
  shows "rejected_above env (xs @ [x]) n"
  unfolding rejected_above_def
proof (intro allI impI)
  fix k assume k: "n < k \<and> k \<le> length (xs @ [x])"
  show "\<exists>q. setItem_throws env (take k (xs @ [x])) = Some q \<and> isQuotaError q"
  proof (cases "k \<le> length xs")
    case True
    then have "take k (xs @ [x]) = take k xs" by simp
    moreover from assms(2) k True
    have "\<exists>q. setItem_throws env (take k xs) = Some q \<and> isQuotaError q"
      unfolding rejected_above_def by simp
    ultimately show ?thesis by simp
  next
    case False
    with k have "take k (xs @ [x]) = xs @ [x]" by simp
    with assms(3,4) show ?thesis by simp
  qed
qed

text \<open>
  Every save returns, and where it ends is fixed by the store: at the longest prefix of
  the candidate that is not rejected for capacity. If there is none, the key is removed
  and the history emptied; if the store takes that prefix, it is stored and becomes the
  history; if its write fails for another reason, the error is logged and nothing else
  changes.
\<close>

lemma saveHistory_ends:
  "\<exists>n s'. saveHistory env new s = Inr s' \<and> n \<le> length new \<and> rejected_above env new n \<and>
     (if n = 0
      then s' = (case removeItem_throws env of
                   None \<Rightarrow> s\<lparr>generationHistory := None\<rparr>
                 | Some e \<Rightarrow>
                     console_error ''Failed to clear history from localStorage after pruning.'' e s)
                \<lparr>history := []\<rparr>
      else (case setItem_throws env (take n new) of
              None \<Rightarrow> s' = s\<lparr>generationHistory := Some (take n new), history := take n new\<rparr>
            | Some e \<Rightarrow>
                \<not> isQuotaError e \<and>
                s' = console_error ''Failed to save history to localStorage'' e s))"
proof (induction new rule: rev_induct)
  case Nil
  show ?case
    by (rule exI [of _ 0]) (simp add: saveHistory_empty rejected_above_def)
next
  case (snoc x xs)
  let ?new = "xs @ [x]"
  have ne: "?new \<noteq> []" by simp
  have top: "rejected_above env ?new (length ?new)"
    by (auto simp: rejected_above_def)
  show ?case
  proof (cases "setItem_throws env ?new")
    case None
    show ?thesis
      by (rule exI [of _ "length ?new"],
          rule exI [of _ "s\<lparr>generationHistory := Some ?new, history := ?new\<rparr>"])
         (use saveHistory_stored [OF ne None, of s] None top in simp)
  next
    case (Some e)
    show ?thesis
    proof (cases "isQuotaError e")
      case False
      show ?thesis
        by (rule exI [of _ "length ?new"],
            rule exI [of _ "console_error ''Failed to save history to localStorage'' e s"])
           (use saveHistory_other [OF ne Some False, of s] Some False top in simp)
    next
      case True
      from snoc.IH obtain n s' where r: "saveHistory env xs s = Inr s'" and n: "n \<le> length xs"
        and above: "rejected_above env xs n"
        and ends: "if n = 0
          then s' = (case removeItem_throws env of
                       None \<Rightarrow> s\<lparr>generationHistory := None\<rparr>
                     | Some e \<Rightarrow>
                         console_error ''Failed to clear history from localStorage after pruning.'' e s)
                    \<lparr>history := []\<rparr>
          else (case setItem_throws env (take n xs) of
                  None \<Rightarrow> s' = s\<lparr>generationHistory := Some (take n xs), history := take n xs\<rparr>
                | Some e \<Rightarrow>
                    \<not> isQuotaError e \<and>
                    s' = console_error ''Failed to save history to localStorage'' e s)"
        by (elim exE conjE) (rule that)
      have r': "saveHistory env ?new s = Inr s'"
        using saveHistory_quota [OF ne Some True] r by simp
      have above': "rejected_above env ?new n"
        by (rule rejected_above_snoc [OF n above Some True])
      have t: "take n ?new = take n xs" using n by simp
      have n': "n \<le> length ?new" using n by simp
      have ends': "if n = 0
          then s' = (case removeItem_throws env of
                       None \<Rightarrow> s\<lparr>generationHistory := None\<rparr>
                     | Some e \<Rightarrow>
                         console_error ''Failed to clear history from localStorage after pruning.'' e s)
                    \<lparr>history := []\<rparr>
          else (case setItem_throws env (take n ?new) of
                  None \<Rightarrow> s' = s\<lparr>generationHistory := Some (take n ?new), history := take n ?new\<rparr>
                | Some e \<Rightarrow>
                    \<not> isQuotaError e \<and>
                    s' = console_error ''Failed to save history to localStorage'' e s)"
        unfolding t by (rule ends)
      show ?thesis
        by (rule exI [of _ n], rule exI [of _ s'], intro conjI) (fact r' n' above' ends')+
    qed
  qed
qed

lemma addToHistory_bounded:
  assumes "bounded s"
  shows "\<exists>s'. addToHistory item env s = Inr s' \<and> bounded s'"
proof -
  from saveHistory_ends [of env "candidate item s" s] obtain n s' where
    r: "saveHistory env (candidate item s) s = Inr s'"
    and ends: "if n = 0
          then s' = (case removeItem_throws env of
                       None \<Rightarrow> s\<lparr>generationHistory := None\<rparr>
                     | Some e \<Rightarrow>
                         console_error ''Failed to clear history from localStorage after pruning.'' e s)
                    \<lparr>history := []\<rparr>
          else (case setItem_throws env (take n (candidate item s)) of
                  None \<Rightarrow> s' = s\<lparr>generationHistory := Some (take n (candidate item s)),
                                 history := take n (candidate item s)\<rparr>
                | Some e \<Rightarrow>
                    \<not> isQuotaError e \<and>
                    s' = console_error ''Failed to save history to localStorage'' e s)"
    by (elim exE conjE) (rule that)
  have "bounded s'"
    using ends assms
    by (auto simp: bounded_def console_error_def candidate_def split: if_splits option.splits)
  with r show ?thesis by (simp add: addToHistory_def candidate_def)
qed

lemma append_all_bounded:
  "bounded s \<Longrightarrow> \<exists>s'. append_all ops s = Inr s' \<and> bounded s'"
proof (induction ops arbitrary: s)
  case Nil
  then show ?case by simp
next
  case (Cons a ops)
  from addToHistory_bounded [OF Cons.prems, of "fst a" "snd a"] obtain s1 where
    "addToHistory (fst a) (snd a) s = Inr s1" "bounded s1" by blast
  with Cons.IH [of s1] show ?case by simp
qed

text \<open>
  Claim C2, as the code has it. After any sequence of appends from the empty store,
  under any behaviour of the storage at all, one more append returns to its caller (no
  exception leaves it) and both the history in memory and the stored one hold at most
  \<open>MAX_HISTORY_ITEMS = 10\<close> records. The candidate is the new record followed by the old
  ones, cut to ten. The append ends at the longest prefix of the candidate (\<open>n\<close> records)
  that the store does not reject for capacity: every longer prefix was rejected, oldest
  record dropped, and retried. If the store takes that prefix, it is stored and is the
  history, with the new record first. If every prefix down to the single new record was
  rejected (\<open>n = 0\<close>), the key is removed and the history is empty. If the write of that
  prefix fails for another reason, the error is logged and the history is the old one,
  without the new record.
\<close>

theorem append_returns_longest_accepted_prefix:
  "\<exists>s s' n. append_all ops root_init = Inr s \<and> addToHistory item env s = Inr s' \<and>
     bounded s' \<and> n \<le> length (candidate item s) \<and> rejected_above env (candidate item s) n \<and>
     (if n = 0
      then s' = (case removeItem_throws env of
                   None \<Rightarrow> s\<lparr>generationHistory := None\<rparr>
                 | Some e \<Rightarrow>
                     console_error ''Failed to clear history from localStorage after pruning.'' e s)
                \<lparr>history := []\<rparr>
      else (case setItem_throws env (take n (candidate item s)) of
              None \<Rightarrow>
                hd (take n (candidate item s)) = item \<and>
                s' = s\<lparr>generationHistory := Some (take n (candidate item s)),
                       history := take n (candidate item s)\<rparr>
            | Some e \<Rightarrow>
                \<not> isQuotaError e \<and>
                s' = console_error ''Failed to save history to localStorage'' e s))"
proof -
  obtain s where s: "append_all ops root_init = Inr s" "bounded s"
    using append_all_bounded [of root_init ops] by (auto simp: bounded_def root_init_def)
  from addToHistory_bounded [OF s(2), of item env] obtain s0 where
    s0: "addToHistory item env s = Inr s0" "bounded s0" by blast
  from saveHistory_ends [of env "candidate item s" s] obtain n s' where
    r: "saveHistory env (candidate item s) s = Inr s'"
    and n: "n \<le> length (candidate item s)"
    and above: "rejected_above env (candidate item s) n"
    and ends: "if n = 0
          then s' = (case removeItem_throws env of
                       None \<Rightarrow> s\<lparr>generationHistory := None\<rparr>
                     | Some e \<Rightarrow>
                         console_error ''Failed to clear history from localStorage after pruning.'' e s)
                    \<lparr>history := []\<rparr>
          else (case setItem_throws env (take n (candidate item s)) of
                  None \<Rightarrow> s' = s\<lparr>generationHistory := Some (take n (candidate item s)),
                                 history := take n (candidate item s)\<rparr>
                | Some e \<Rightarrow>
                    \<not> isQuotaError e \<and>
                    s' = console_error ''Failed to save history to localStorage'' e s)"
    by (elim exE conjE) (rule that)
  have eq: "s0 = s'"
    using s0(1) r by (simp add: addToHistory_def candidate_def)
  have first: "0 < n \<Longrightarrow> hd (take n (candidate item s)) = item"
    by (cases n) (simp_all add: candidate_def MAX_HISTORY_ITEMS_def)
  show ?thesis
    by (rule exI [of _ s], rule exI [of _ s'], rule exI [of _ n])
       (use s(1) s0 eq n above ends first in \<open>auto split: option.splits\<close>)
qed

text \<open>
  After one record is stored, an append to a store with room takes both records, the
  new one first; an append to a store with room for one record drops the old record
  and stores the new one.
\<close>

theorem append_returns_witness:
  "append_all [(1, roomy_store), (2, roomy_store)] root_init =
     Inr \<lparr>history = [2, 1], generationHistory = Some [2, 1], console = []\<rparr> \<and>
   append_all [(1, roomy_store), (2, tight_store)] root_init =
     Inr \<lparr>history = [2], generationHistory = Some [2], console = []\<rparr> \<and>
   (\<exists>s s' n. append_all [(1, roomy_store)] root_init = Inr s \<and>
      addToHistory 2 tight_store s = Inr s' \<and> bounded s' \<and>
      n \<le> length (candidate 2 s) \<and> rejected_above tight_store (candidate 2 s) n)"
proof -
  have 1: "append_all [(1, roomy_store), (2, roomy_store)] root_init =
     Inr \<lparr>history = [2, 1], generationHistory = Some [2, 1], console = []\<rparr>"
    by (simp add: addToHistory_def MAX_HISTORY_ITEMS_def roomy_store_def root_init_def
        saveHistory.simps localStorage_setItem_def)
  have 2: "append_all [(1, roomy_store), (2, tight_store)] root_init =
     Inr \<lparr>history = [2], generationHistory = Some [2], console = []\<rparr>"
    by (simp add: addToHistory_def MAX_HISTORY_ITEMS_def roomy_store_def tight_store_def root_init_def
        saveHistory.simps localStorage_setItem_def isQuotaError_def)
  have 3: "\<exists>s s' n. append_all [(1, roomy_store)] root_init = Inr s \<and>
      addToHistory 2 tight_store s = Inr s' \<and> bounded s' \<and>
      n \<le> length (candidate 2 s) \<and> rejected_above tight_store (candidate 2 s) n"
    using append_returns_longest_accepted_prefix [of "[(1, roomy_store)]" 2 tight_store]
    by - (elim exE conjE, intro exI conjI, assumption+)
  from 1 2 3 show ?thesis by simp
qed

text \<open>
  The claim has the new record first after each append. After a write that fails for
  another reason than capacity it is not there: the second append here leaves the
  history \<open>[1]\<close>.
\<close>

theorem append_abandoned_counterexample:
  "append_all [(1, roomy_store), (2, broken_store)] root_init =
     Inr \<lparr>history = [1], generationHistory = Some [1],
          console = [(''Failed to save history to localStorage'', DOMException ''SecurityError'')]\<rparr>"
  by (simp add: addToHistory_def MAX_HISTORY_ITEMS_def roomy_store_def broken_store_def root_init_def
      saveHistory.simps localStorage_setItem_def isQuotaError_def console_error_def)

lemma saveHistory_meets_other_error:
  assumes "0 < n" and "n \<le> length new"
    and "setItem_throws env (take n new) = Some e" and "\<not> isQuotaError e"
    and "\<forall>k. n < k \<and> k \<le> length new \<longrightarrow>
           (\<exists>q. setItem_throws env (take k new) = Some q \<and> isQuotaError q)"
  shows "saveHistory env new s = Inr (console_error ''Failed to save history to localStorage'' e s)"
  using assms
proof (induction new rule: rev_induct)
  case Nil
  then show ?case by simp
next
  case (snoc x xs)
  let ?new = "xs @ [x]"
  have ne: "?new \<noteq> []" by simp
  show ?case
  proof (cases "n = length ?new")
    case True
    with snoc.prems have "setItem_throws env ?new = Some e" by simp
    from saveHistory_other [OF ne this snoc.prems(4)] show ?thesis .
  next
    case False
    with snoc.prems have le: "n \<le> length xs" by simp
    from le have "n < length ?new \<and> length ?new \<le> length ?new" by simp
    with snoc.prems(5) have "\<exists>q. setItem_throws env (take (length ?new) ?new) = Some q \<and> isQuotaError q"
      by (rule_tac mp [OF spec [of _ "length ?new"]])
    then obtain q where q: "setItem_throws env ?new = Some q" "isQuotaError q"
      by auto
    have t: "take n ?new = take n xs" using le by simp
    have "saveHistory env xs s = Inr (console_error ''Failed to save history to localStorage'' e s)"
    proof (rule snoc.IH [OF snoc.prems(1) le _ snoc.prems(4)])
      show "setItem_throws env (take n xs) = Some e" using snoc.prems(3) unfolding t .
      show "\<forall>k. n < k \<and> k \<le> length xs \<longrightarrow>
              (\<exists>q. setItem_throws env (take k xs) = Some q \<and> isQuotaError q)"
      proof (intro allI impI)
        fix k assume k: "n < k \<and> k \<le> length xs"
        then have e: "take k ?new = take k xs" by simp
        from k have "n < k \<and> k \<le> length ?new" by simp
        with snoc.prems(5) have "\<exists>q. setItem_throws env (take k ?new) = Some q \<and> isQuotaError q"
          by (rule_tac mp [OF spec [of _ k]])
        with e show "\<exists>q. setItem_throws env (take k xs) = Some q \<and> isQuotaError q"
          by simp
      qed
    qed
    with saveHistory_quota [OF ne q] show ?thesis by simp
  qed
qed

text \<open>
  Claim C7, as the code has it. When a write of the save (\<^verbatim>\<open>localStorage.setItem\<close>, on
  the candidate of \<open>n\<close> records that the loop reaches after every longer candidate was
  rejected for capacity) fails with an error that is not a capacity error, the save
  returns with that error logged, and the history in memory and the stored history are
  what they were before. This holds for every save, so for \<^verbatim>\<open>addToHistory\<close>, whose save
  is of the new record before the first ten of the old ones.
\<close>

theorem non_capacity_write_failure_keeps_history:
  assumes "0 < n" and "n \<le> length new"
    and "setItem_throws env (take n new) = Some e" and "\<not> isQuotaError e"
    and "\<forall>k. n < k \<and> k \<le> length new \<longrightarrow>
           (\<exists>q. setItem_throws env (take k new) = Some q \<and> isQuotaError q)"
  shows "\<exists>s'. saveHistory env new s = Inr s' \<and>
           history s' = history s \<and> generationHistory s' = generationHistory s \<and>
           console s' = console s @ [(''Failed to save history to localStorage'', e)]"
  using saveHistory_meets_other_error [OF assms, of s] by (simp add: console_error_def)

theorem non_capacity_write_failure_witness:
  "\<exists>s'. saveHistory broken_store [2, 1] \<lparr>history = [1], generationHistory = Some [1], console = []\<rparr> = Inr s' \<and>
        history s' = [1] \<and> generationHistory s' = Some [1] \<and>
        console s' = [(''Failed to save history to localStorage'', DOMException ''SecurityError'')]"
  using non_capacity_write_failure_keeps_history [of 1 "[2, 1]" broken_store "DOMException ''SecurityError''"
      "\<lparr>history = [1], generationHistory = Some [1], console = []\<rparr>"]
  by (simp add: broken_store_def isQuotaError_def)

text \<open>
  The claim speaks of every persistence failure that is not a capacity error. The
  removal that follows a save pruned to nothing (\<^verbatim>\<open>localStorage.removeItem\<close>) can fail
  too; that failure is logged, and the history in memory is set to empty all the same,
  while the store keeps what it had: here the history \<open>[1]\<close> becomes \<open>[]\<close> and the store
  still holds \<open>[1]\<close>.
\<close>

theorem clear_failure_counterexample:
  "addToHistory 2 full_store \<lparr>history = [1], generationHistory = Some [1], console = []\<rparr> =
     Inr \<lparr>history = [], generationHistory = Some [1],
          console = [(''Failed to clear history from localStorage after pruning.'',
                      DOMException ''SecurityError'')]\<rparr>
   \<and> \<not> isQuotaError (DOMException ''SecurityError'')"
  by (simp add: addToHistory_def MAX_HISTORY_ITEMS_def full_store_def saveHistory.simps
      localStorage_setItem_def localStorage_removeItem_def isQuotaError_def console_error_def)


section \<open>Properties of the video quota\<close>

declare digits.simps [simp del]

lemma toString_int_safe:
  "0 \<le> i \<Longrightarrow> i \<le> MAX_SAFE_INTEGER \<Longrightarrow> toString_int i = Some (digits (nat i))"
  by (simp add: toString_int_def MAX_SAFE_INTEGER_def)

lemma handleGenerateVideo_exhausted:
  "currentImage s \<noteq> None \<Longrightarrow> videoQuota s \<le> 0 \<Longrightarrow>
   handleGenerateVideo p run s =
     Some ([], s\<lparr>errorState := Some ''Daily video quota exceeded. Please add tokens.''\<rparr>)"
  by (auto simp: handleGenerateVideo_def)

lemma handleGenerateVideo_charged:
  assumes "currentImage s \<noteq> None" and "0 < videoQuota s" and "videoQuota s \<le> MAX_SAFE_INTEGER"
  shows "\<exists>evs s'. handleGenerateVideo p run s = Some (evs, s') \<and>
           videoQuota s' = videoQuota s - 1 \<and> currentImage s' = currentImage s \<and>
           (consumed evs = (quota_setItem_throws run = None)) \<and>
           (quota_setItem_throws run = None \<longrightarrow>
              localStorage s' ''vox_video_quota'' = Some (digits (nat (videoQuota s - 1))) \<and>
              take 2 evs = [SetItem ''vox_video_quota'' (digits (nat (videoQuota s - 1))), GenerateVideo p])"
proof -
  have t: "toString_int (videoQuota s - 1) = Some (digits (nat (videoQuota s - 1)))"
    using assms by (intro toString_int_safe) simp_all
  show ?thesis
    using assms t
    by (auto simp: handleGenerateVideo_def updateQuota_def Let_def consumed_def
        split: option.splits sum.splits)
qed

lemma three_attempts:
  assumes i: "currentImage s \<noteq> None" and q: "videoQuota s = 2"
    and w: "quota_setItem_throws r1 = None" "quota_setItem_throws r2 = None"
  shows "\<exists>s3. video_attempts [(p1, r1), (p2, r2), (p3, r3)] s = Some ([True, True, False], s3) \<and>
           videoQuota s3 = 0 \<and> localStorage s3 ''vox_video_quota'' = Some ''0''"
proof -
  have q0: "0 < videoQuota s" "videoQuota s \<le> MAX_SAFE_INTEGER"
    using q by (simp_all add: MAX_SAFE_INTEGER_def)
  from handleGenerateVideo_charged [OF i q0, of p1 r1] w(1) q obtain e1 s1 where
    1: "handleGenerateVideo p1 r1 s = Some (e1, s1)" "videoQuota s1 = 1"
       "currentImage s1 = currentImage s" "consumed e1"
    by auto
  have i1: "currentImage s1 \<noteq> None" using 1(3) i by simp
  have q1: "0 < videoQuota s1" "videoQuota s1 \<le> MAX_SAFE_INTEGER"
    using 1(2) by (simp_all add: MAX_SAFE_INTEGER_def)
  from handleGenerateVideo_charged [OF i1 q1, of p2 r2] w(2) 1(2) obtain e2 s2 where
    2: "handleGenerateVideo p2 r2 s1 = Some (e2, s2)" "videoQuota s2 = 0"
       "currentImage s2 = currentImage s1" "consumed e2"
       "localStorage s2 ''vox_video_quota'' = Some (digits 0)"
    by auto
  have i2: "currentImage s2 \<noteq> None" using 2(3) i1 by simp
  have q2: "videoQuota s2 \<le> 0" using 2(2) by simp
  note 3 = handleGenerateVideo_exhausted [OF i2 q2, of p3 r3]
  have d: "digits 0 = ''0''" by (simp add: digits.simps)
  show ?thesis
    using 1(1,4) 2(1,2,4,5) 3 d by (simp add: consumed_def)
qed

text \<open>
  Claim C5. The quota is any safe integer (up to \<^verbatim>\<open>Number.MAX_SAFE_INTEGER\<close>), where the
  numbers of the code are the integers. A run of \<^verbatim>\<open>handleGenerateVideo\<close> with an image
  loaded reaches the quota gate. With the quota at or below zero it only reports the
  failure: the state is the old one with the error message set, so the quota in memory
  and the stored quota are unchanged and no remote call is made. With a positive quota
  it lowers the quota in memory by exactly one, and (the write succeeding) the first
  two things it does outside are the write of the new value and then the remote video
  call; the result of the remote call does not change the quota (no refund). The remote
  call is begun only after the deduction was written. From quota 2, three runs in a row
  pass, pass and fail the gate, and leave the quota at 0 in memory and in the store.
\<close>

theorem quota_consumed_before_video_call:
  assumes "currentImage s \<noteq> None" and "videoQuota s \<le> MAX_SAFE_INTEGER"
  shows "(\<exists>evs s'. handleGenerateVideo p run s = Some (evs, s') \<and>
            (videoQuota s \<le> 0 \<longrightarrow>
               evs = [] \<and>
               s' = s\<lparr>errorState := Some ''Daily video quota exceeded. Please add tokens.''\<rparr>) \<and>
            (0 < videoQuota s \<longrightarrow> videoQuota s' = videoQuota s - 1) \<and>
            (0 < videoQuota s \<and> quota_setItem_throws run = None \<longrightarrow>
               (\<exists>str. toString_int (videoQuota s - 1) = Some str \<and>
                  localStorage s' ''vox_video_quota'' = Some str \<and>
                  take 2 evs = [SetItem ''vox_video_quota'' str, GenerateVideo p])) \<and>
            (consumed evs \<longrightarrow> 0 < videoQuota s \<and> quota_setItem_throws run = None)) \<and>
         (videoQuota s = 2 \<and> quota_setItem_throws r1 = None \<and> quota_setItem_throws r2 = None \<longrightarrow>
            (\<exists>s3. video_attempts [(p1, r1), (p2, r2), (p3, r3)] s = Some ([True, True, False], s3) \<and>
               videoQuota s3 = 0 \<and> localStorage s3 ''vox_video_quota'' = Some ''0''))"
proof -
  have run: "\<exists>evs s'. handleGenerateVideo p run s = Some (evs, s') \<and>
            (videoQuota s \<le> 0 \<longrightarrow>
               evs = [] \<and>
               s' = s\<lparr>errorState := Some ''Daily video quota exceeded. Please add tokens.''\<rparr>) \<and>
            (0 < videoQuota s \<longrightarrow> videoQuota s' = videoQuota s - 1) \<and>
            (0 < videoQuota s \<and> quota_setItem_throws run = None \<longrightarrow>
               (\<exists>str. toString_int (videoQuota s - 1) = Some str \<and>
                  localStorage s' ''vox_video_quota'' = Some str \<and>
                  take 2 evs = [SetItem ''vox_video_quota'' str, GenerateVideo p])) \<and>
            (consumed evs \<longrightarrow> 0 < videoQuota s \<and> quota_setItem_throws run = None)"
  proof (cases "videoQuota s \<le> 0")
    case True
    show ?thesis
      by (rule exI [of _ "[]"],
          rule exI [of _ "s\<lparr>errorState := Some ''Daily video quota exceeded. Please add tokens.''\<rparr>"])
         (use True handleGenerateVideo_exhausted [OF assms(1) True, of p run] in
            \<open>simp add: consumed_def\<close>)
  next
    case False
    then have pos: "0 < videoQuota s" by simp
    have t: "toString_int (videoQuota s - 1) = Some (digits (nat (videoQuota s - 1)))"
      using pos assms(2) by (intro toString_int_safe) simp_all
    from handleGenerateVideo_charged [OF assms(1) pos assms(2), of p run] obtain evs s' where
      r: "handleGenerateVideo p run s = Some (evs, s')" "videoQuota s' = videoQuota s - 1"
         "consumed evs = (quota_setItem_throws run = None)"
         "quota_setItem_throws run = None \<longrightarrow>
            localStorage s' ''vox_video_quota'' = Some (digits (nat (videoQuota s - 1))) \<and>
            take 2 evs = [SetItem ''vox_video_quota'' (digits (nat (videoQuota s - 1))), GenerateVideo p]"
      by (elim exE conjE) (rule that)
    show ?thesis
      by (rule exI [of _ evs], rule exI [of _ s']) (use r pos t in simp)
  qed
  have three: "videoQuota s = 2 \<and> quota_setItem_throws r1 = None \<and> quota_setItem_throws r2 = None \<longrightarrow>
            (\<exists>s3. video_attempts [(p1, r1), (p2, r2), (p3, r3)] s = Some ([True, True, False], s3) \<and>
               videoQuota s3 = 0 \<and> localStorage s3 ''vox_video_quota'' = Some ''0'')"
    using three_attempts [OF assms(1), of r1 r2 p1 p2 p3 r3] by simp
  from run three show ?thesis by (rule conjI)
qed

theorem quota_witness:
  "currentImage with_image \<noteq> None \<and> videoQuota with_image = 2 \<and>
   handleGenerateVideo ''pan left'' video_fails with_image =
     Some ([SetItem ''vox_video_quota'' ''1'', GenerateVideo ''pan left''],
           with_image\<lparr>videoQuota := 1, errorState := Some ''network error'',
                      localStorage := [''vox_video_quota'' \<mapsto> ''1'']\<rparr>) \<and>
   (\<exists>s3. video_attempts [(''a'', video_ok), (''b'', video_fails), (''c'', video_ok)] with_image =
            Some ([True, True, False], s3) \<and>
          videoQuota s3 = 0 \<and> localStorage s3 ''vox_video_quota'' = Some ''0'')"
proof -
  have i: "currentImage with_image \<noteq> None" and q: "videoQuota with_image = 2"
    by (simp_all add: with_image_def vox_init_def)
  have b: "videoQuota with_image \<le> MAX_SAFE_INTEGER"
    by (simp add: q MAX_SAFE_INTEGER_def)
  have w: "quota_setItem_throws video_fails = None" "quota_setItem_throws video_ok = None"
    by (simp_all add: video_fails_def video_ok_def)
  have e: "handleGenerateVideo ''pan left'' video_fails with_image =
     Some ([SetItem ''vox_video_quota'' ''1'', GenerateVideo ''pan left''],
           with_image\<lparr>videoQuota := 1, errorState := Some ''network error'',
                      localStorage := [''vox_video_quota'' \<mapsto> ''1'']\<rparr>)"
    by (simp add: handleGenerateVideo_def with_image_def vox_init_def video_fails_def updateQuota_def
        toString_int_def digits.simps MAX_SAFE_INTEGER_def DAILY_FREE_QUOTA_def)
  from quota_consumed_before_video_call [OF i b, of "''pan left''" video_fails video_ok video_fails
      "''a''" "''b''" "''c''" video_ok] q w
  have "\<exists>s3. video_attempts [(''a'', video_ok), (''b'', video_fails), (''c'', video_ok)] with_image =
            Some ([True, True, False], s3) \<and>
          videoQuota s3 = 0 \<and> localStorage s3 ''vox_video_quota'' = Some ''0''"
    by simp
  with i q e show ?thesis by simp
qed


section \<open>Properties of the routing\<close>

text \<open>A prompt of white space only, the no-break space included, is blank: nothing is routed.\<close>

lemma blank_prompt_not_routed:
  "handleGenerate_operation maskCanvas (two_staged\<lparr>promptState := [CHR 0xA0, CHR '' '', CHR 0x09]\<rparr>) = None"
  by (simp add: handleGenerate_operation_def trim_def isWhiteSpace_def whiteSpace_code_units_def)

text \<open>
  Claim C4, as the code has it. \<^verbatim>\<open>handleGenerate\<close> takes the combine branch exactly when
  the prompt is not blank (\<^verbatim>\<open>prompt.trim()\<close> is not empty) and at least two input images
  are staged; the test comes
  first, so inpainting mode, a mask and a loaded image do not matter to it, and the
  inpaint, edit and generate branches are taken only with fewer than two staged images.
  The wording of the instruction is not looked at.
\<close>

theorem combine_selected_iff_two_staged:
  "(handleGenerate_operation maskCanvas s = Some Combine) =
     (trim (promptState s) \<noteq> [] \<and> 2 \<le> length (inputImages s)) \<and>
   (handleGenerate_operation maskCanvas s = Some Inpaint) =
     (trim (promptState s) \<noteq> [] \<and> length (inputImages s) < 2 \<and>
      isInpaintingMode s \<and> currentImage s \<noteq> None \<and> maskCanvas) \<and>
   (handleGenerate_operation maskCanvas s = Some Edit) =
     (trim (promptState s) \<noteq> [] \<and> length (inputImages s) < 2 \<and>
      \<not> (isInpaintingMode s \<and> maskCanvas) \<and> currentImage s \<noteq> None) \<and>
   (handleGenerate_operation maskCanvas s = Some Generate) =
     (trim (promptState s) \<noteq> [] \<and> length (inputImages s) < 2 \<and> currentImage s = None) \<and>
   (handleGenerate_operation maskCanvas s = None) = (trim (promptState s) = [])"
  by (auto simp: handleGenerate_operation_def)

text \<open>
  The claim also asks for a merge intent in the instruction. The instruction
  \<^verbatim>\<open>make it blue\<close> has none (neither \<^verbatim>\<open>combine\<close> nor \<^verbatim>\<open>merge\<close> occurs in it, the test of
  \<^verbatim>\<open>Header.tsx\<close>), and with two staged images it is routed to combine.
\<close>

theorem combine_without_merge_intent_counterexample:
  "handleGenerate_operation False two_staged = Some Combine \<and>
   2 \<le> length (inputImages two_staged) \<and>
   \<not> impliesMergeIntent (promptState two_staged)"
  by (simp add: handleGenerate_operation_def two_staged_def vox_init_def trim_def isWhiteSpace_def
      whiteSpace_code_units_def impliesMergeIntent_def toLowerCase_def toLowerCase_char_def startsWith_def)


section \<open>Properties of the service layer\<close>

text \<open>What \<^verbatim>\<open>parseGeminiError\<close> makes of the errors the service functions throw themselves.\<close>

lemma parse_combining:
  "parseGeminiError (new_Error ''Combining requires 2 to 6 images.'') =
     ''An unexpected API error occurred: Combining requires 2 to 6 images.''"
  by (simp add: parseGeminiError_def new_Error_def toLowerCase_def toLowerCase_char_def startsWith_def)

lemma parse_api_key:
  "parseGeminiError API_KEY_error =
     ''An unexpected API error occurred: API_KEY environment variable is not set. Please select a key.''"
  by (simp add: parseGeminiError_def API_KEY_error_def new_Error_def toLowerCase_def toLowerCase_char_def startsWith_def)



text \<open>An error that is neither a 403 nor a 404 passes through unchanged, with no second call.\<close>

lemma execute_passes_other_errors:
  "fn w = Some (Inl (Thrown e), w1) \<Longrightarrow> \<not> isPermissionDenied e \<Longrightarrow> \<not> isNotFound e \<Longrightarrow>
   executeWithApiKeyHandling fn a w = Some (Inl (Thrown e), w1)"
  by (simp add: executeWithApiKeyHandling_def)

lemma execute_passes_new_Error:
  "fn w = Some (Inl (new_Error m), w1) \<Longrightarrow> \<not> reauth_eligible (new_Error m) \<Longrightarrow>
   executeWithApiKeyHandling fn a w = Some (Inl (new_Error m), w1)"
  by (simp add: executeWithApiKeyHandling_def new_Error_def reauth_eligible_def)

lemma combining_not_eligible:
  "\<not> reauth_eligible (new_Error ''An unexpected API error occurred: Combining requires 2 to 6 images.'')"
  by (simp add: reauth_eligible_def new_Error_def isPermissionDenied_def isNotFound_def
      message_or_toString_def truthy_def inner_code_def startsWith_def)

lemma api_key_not_eligible:
  "\<not> reauth_eligible (new_Error ''An unexpected API error occurred: API_KEY environment variable is not set. Please select a key.'')"
  by (simp add: reauth_eligible_def new_Error_def isPermissionDenied_def isNotFound_def
      message_or_toString_def truthy_def inner_code_def startsWith_def)


lemma combineImages_no_key:
  "\<not> truthy (API_KEY env) \<Longrightarrow>
   combineImages env imgs p =
     Some (Inl (new_Error ''An unexpected API error occurred: API_KEY environment variable is not set. Please select a key.''), [])"
  unfolding combineImages_def
  by (rule execute_passes_new_Error)
     (simp_all add: combineImages_thunk_def rethrow_parsed_def parse_api_key api_key_not_eligible)

lemma combineImages_out_of_range:
  "truthy (API_KEY env) \<Longrightarrow> length imgs < 2 \<or> 6 < length imgs \<Longrightarrow>
   combineImages env imgs p =
     Some (Inl (new_Error ''An unexpected API error occurred: Combining requires 2 to 6 images.''), [])"
  unfolding combineImages_def
  by (rule execute_passes_new_Error)
     (auto simp add: combineImages_thunk_def rethrow_parsed_def parse_combining combining_not_eligible)

lemma updateCurrentImage_tray [simp]:
  "inputImages (updateCurrentImage a b s) = inputImages s"
  by (simp add: updateCurrentImage_def Let_def split: option.splits)

lemma pushToSessionHistory_tray [simp]:
  "inputImages (pushToSessionHistory i p s) = inputImages s"
  by (simp add: pushToSessionHistory_def Let_def)

lemma handleFileUpload_tray:
  "length (inputImages s) \<le> 6 \<Longrightarrow> length (inputImages (handleFileUpload files s)) \<le> 6"
  by (auto simp add: handleFileUpload_def Let_def split: option.splits list.splits)

lemma handleRemoveFromTray_tray:
  "length (inputImages (handleRemoveFromTray i s)) \<le> length (inputImages s)"
proof -
  have "length (filter (\<lambda>p. int (fst p) \<noteq> i) (zip [0 ..< length (inputImages s)] (inputImages s)))
          \<le> length (zip [0 ..< length (inputImages s)] (inputImages s))"
    by (rule length_filter_le)
  then show ?thesis by (simp add: handleRemoveFromTray_def)
qed

lemma tray_step_tray:
  "length (inputImages s) \<le> 6 \<Longrightarrow> length (inputImages (tray_step a s)) \<le> 6"
  using handleRemoveFromTray_tray [of _ s]
  by (cases a) (auto simp: handleFileUpload_tray intro: order_trans)

lemma tray_run_tray:
  "length (inputImages s) \<le> 6 \<Longrightarrow> length (inputImages (tray_run acts s)) \<le> 6"
  by (induction acts arbitrary: s) (simp_all add: tray_step_tray)

lemma all_loaded:
  "\<forall>f \<in> set files. truthy (result f) \<Longrightarrow>
   concat (map (\<lambda>f. if truthy (result f) then [g f] else []) files) = map g files"
  by (induction files) simp_all

lemma handleFileUpload_caps:
  assumes "files \<noteq> []" and "\<not> (length files = 1 \<and> inputImages s = [])"
    and "\<forall>f \<in> set files. truthy (result f)"
  shows "inputImages (handleFileUpload files s) =
           take 6 (inputImages s @ map (\<lambda>f. \<lparr>base64 = the (result f), mimeType = file_type f\<rparr>) files)"
  using assms by (auto simp add: handleFileUpload_def Let_def all_loaded split: list.splits)

text \<open>
  Claim C9. Called with fewer than two or more than six images, \<^verbatim>\<open>combineImages\<close>
  rejects and has done nothing outside (no request to the model, no key selection): the
  world it leaves is the empty list. With an API key configured the error is the one of
  the count check, \<^verbatim>\<open>Combining requires 2 to 6 images.\<close>, which the \<^verbatim>\<open>catch\<close> of the
  function rethrows through \<^verbatim>\<open>parseGeminiError\<close>, so the message that reaches the caller
  is that text after \<^verbatim>\<open>An unexpected API error occurred: \<close>; without a key
  \<^verbatim>\<open>getAi\<close> throws first. The tray holds at most six images after any sequence of
  uploads, removals and resets, and an upload into the tray keeps the first six of the
  old images followed by the new ones.
\<close>

theorem combine_rejects_bad_counts_and_tray_capped:
  assumes "length imgs < 2 \<or> 6 < length imgs"
  shows "(\<exists>e. combineImages env imgs p = Some (Inl e, [])) \<and>
         (truthy (API_KEY env) \<longrightarrow>
            combineImages env imgs p =
              Some (Inl (new_Error (parseGeminiError (new_Error ''Combining requires 2 to 6 images.''))), [])) \<and>
         parseGeminiError (new_Error ''Combining requires 2 to 6 images.'') =
           ''An unexpected API error occurred: Combining requires 2 to 6 images.'' \<and>
         length (inputImages (tray_run acts vox_init)) \<le> 6 \<and>
         (files \<noteq> [] \<and> \<not> (length files = 1 \<and> inputImages s = []) \<and>
          (\<forall>f \<in> set files. truthy (result f)) \<longrightarrow>
            inputImages (handleFileUpload files s) =
              take 6 (inputImages s @ map (\<lambda>f. \<lparr>base64 = the (result f), mimeType = file_type f\<rparr>) files))"
proof -
  have 1: "\<exists>e. combineImages env imgs p = Some (Inl e, [])"
    using combineImages_no_key [of env imgs p] combineImages_out_of_range [OF _ assms, of env p]
    by (cases "truthy (API_KEY env)") simp_all
  have 2: "truthy (API_KEY env) \<longrightarrow>
            combineImages env imgs p =
              Some (Inl (new_Error (parseGeminiError (new_Error ''Combining requires 2 to 6 images.''))), [])"
    using combineImages_out_of_range [OF _ assms, of env p] by (simp add: parse_combining)
  have 3: "length (inputImages (tray_run acts vox_init)) \<le> 6"
    by (rule tray_run_tray) (simp add: vox_init_def)
  show ?thesis
    using 1 2 3 parse_combining handleFileUpload_caps [of files s] by blast
qed

theorem combine_rejects_bad_counts_witness:
  "combineImages demo_env [\<lparr>base64 = ''data:image/png;base64,AA'', mimeType = ''image/png''\<rparr>] ''blend'' =
     Some (Inl (new_Error ''An unexpected API error occurred: Combining requires 2 to 6 images.''), []) \<and>
   length (inputImages (tray_run [Upload eight_files] vox_init)) \<le> 6 \<and>
   length (inputImages (handleFileUpload eight_files vox_init)) = 6"
proof -
  have k: "truthy (API_KEY demo_env)"
    by (simp add: demo_env_def truthy_def)
  have f: "eight_files \<noteq> [] \<and> \<not> (length eight_files = 1 \<and> inputImages vox_init = []) \<and>
           (\<forall>f \<in> set eight_files. truthy (result f))"
    by (simp add: eight_files_def truthy_def)
  from combine_rejects_bad_counts_and_tray_capped
         [of "[\<lparr>base64 = ''data:image/png;base64,AA'', mimeType = ''image/png''\<rparr>]" demo_env "''blend''"
             "[Upload eight_files]" eight_files vox_init] k f
  show ?thesis by (simp add: vox_init_def eight_files_def)
qed







lemma execute_first_resolves:
  "fn [] = Inr v \<Longrightarrow>
   executeWithApiKeyHandling (thunk_of fn) a [] = Some (Inr v, [ThunkCall])"
  by (simp add: executeWithApiKeyHandling_def thunk_of_def)

lemma execute_first_nullish:
  "fn [] = Inl Nullish \<Longrightarrow>
   executeWithApiKeyHandling (thunk_of fn) a [] =
     Some (Inl (new_TypeError ''Cannot read properties of null''), [ThunkCall])"
  by (simp add: executeWithApiKeyHandling_def thunk_of_def)

lemma execute_not_eligible:
  "fn [] = Inl e \<Longrightarrow> e \<noteq> Nullish \<Longrightarrow> \<not> reauth_eligible e \<Longrightarrow>
   executeWithApiKeyHandling (thunk_of fn) a [] = Some (Inl e, [ThunkCall])"
  by (cases e) (simp_all add: executeWithApiKeyHandling_def thunk_of_def reauth_eligible_def)

lemma execute_no_aistudio:
  "fn [] = Inl e \<Longrightarrow> reauth_eligible e \<Longrightarrow>
   executeWithApiKeyHandling (thunk_of fn) None [] = Some (Inl e, [ThunkCall])"
  by (cases e) (simp_all add: executeWithApiKeyHandling_def thunk_of_def reauth_eligible_def)

lemma execute_selection_refused:
  "fn [] = Inl e \<Longrightarrow> reauth_eligible e \<Longrightarrow> s [ThunkCall] = Inl e1 \<Longrightarrow>
   executeWithApiKeyHandling (thunk_of fn) (Some (selection_of s)) [] =
     Some (Inl e, [ThunkCall, OpenSelectKey])"
  by (cases e)
     (simp_all add: executeWithApiKeyHandling_def thunk_of_def selection_of_def reauth_eligible_def)

lemma execute_retry_fails:
  "fn [] = Inl e \<Longrightarrow> reauth_eligible e \<Longrightarrow> s [ThunkCall] = Inr u \<Longrightarrow>
   fn [ThunkCall, OpenSelectKey] = Inl e2 \<Longrightarrow>
   executeWithApiKeyHandling (thunk_of fn) (Some (selection_of s)) [] =
     Some (Inl e, [ThunkCall, OpenSelectKey, ThunkCall])"
  by (cases e)
     (simp_all add: executeWithApiKeyHandling_def thunk_of_def selection_of_def reauth_eligible_def)

lemma execute_retry_resolves:
  "fn [] = Inl e \<Longrightarrow> reauth_eligible e \<Longrightarrow> s [ThunkCall] = Inr u \<Longrightarrow>
   fn [ThunkCall, OpenSelectKey] = Inr v \<Longrightarrow>
   executeWithApiKeyHandling (thunk_of fn) (Some (selection_of s)) [] =
     Some (Inr v, [ThunkCall, OpenSelectKey, ThunkCall])"
  by (cases e)
     (simp_all add: executeWithApiKeyHandling_def thunk_of_def selection_of_def reauth_eligible_def)

lemma nullish_not_eligible [simp]: "\<not> reauth_eligible Nullish"
  by (simp add: reauth_eligible_def)

text \<open>
  Claim C1, as the code has it. For every behaviour of the thunk and of the key
  selection (each any function of the calls made before), and with or without
  \<^verbatim>\<open>window.aistudio\<close>, one call of \<^verbatim>\<open>executeWithApiKeyHandling\<close> makes one of three
  sequences of calls: the thunk; the thunk and the key selection; the thunk, the key
  selection and the thunk again. So the thunk runs at most twice and the key selection at
  most once. The key selection is tried only after a first failure that is a 403 or a
  404, and the thunk runs again only when the selection resolved. When the second run
  fails, or the selection is refused, the call rejects with no further run, and the error
  it rejects with is the error of the first run. A second run that resolves gives the
  result of the call, as a first run that resolves does.
\<close>

theorem at_most_two_attempts_one_reselection:
  "\<exists>r calls.
     executeWithApiKeyHandling (thunk_of fn) (map_option selection_of sel) [] = Some (r, calls) \<and>
     count_list calls ThunkCall \<le> 2 \<and> count_list calls OpenSelectKey \<le> 1 \<and>
     (calls = [ThunkCall] \<or> calls = [ThunkCall, OpenSelectKey] \<or>
      calls = [ThunkCall, OpenSelectKey, ThunkCall]) \<and>
     (OpenSelectKey \<in> set calls \<longrightarrow> (\<exists>e. fn [] = Inl e \<and> reauth_eligible e)) \<and>
     (count_list calls ThunkCall = 2 \<longrightarrow>
        (\<exists>e s. fn [] = Inl e \<and> reauth_eligible e \<and> sel = Some s \<and> s [ThunkCall] = Inr ())) \<and>
     (\<forall>e e2. fn [] = Inl e \<and> count_list calls ThunkCall = 2 \<and> fn [ThunkCall, OpenSelectKey] = Inl e2 \<longrightarrow>
        r = Inl e) \<and>
     (\<forall>e s e1. fn [] = Inl e \<and> reauth_eligible e \<and> sel = Some s \<and> s [ThunkCall] = Inl e1 \<longrightarrow>
        r = Inl e \<and> calls = [ThunkCall, OpenSelectKey]) \<and>
     (\<forall>e s v. fn [] = Inl e \<and> reauth_eligible e \<and> sel = Some s \<and> s [ThunkCall] = Inr () \<and>
        fn [ThunkCall, OpenSelectKey] = Inr v \<longrightarrow>
        r = Inr v \<and> calls = [ThunkCall, OpenSelectKey, ThunkCall]) \<and>
     (\<forall>v. fn [] = Inr v \<longrightarrow> r = Inr v \<and> calls = [ThunkCall])"
proof (cases "fn []")
  case (Inr v)
  show ?thesis
    by (rule exI [of _ "Inr v"], rule exI [of _ "[ThunkCall]"])
       (simp add: execute_first_resolves [of fn v] Inr)
next
  case (Inl e)
  show ?thesis
  proof (cases "reauth_eligible e")
    case False
    show ?thesis
    proof (cases "e = Nullish")
      case True
      show ?thesis
        by (rule exI [of _ "Inl (new_TypeError ''Cannot read properties of null'')"],
            rule exI [of _ "[ThunkCall]"])
           (use Inl True in \<open>simp add: execute_first_nullish [of fn]\<close>)
    next
      case nn: False
      show ?thesis
        by (rule exI [of _ "Inl e"], rule exI [of _ "[ThunkCall]"])
           (simp add: execute_not_eligible [of fn e] nn Inl False)
    qed
  next
    case True
    show ?thesis
    proof (cases sel)
      case None
      show ?thesis
        by (rule exI [of _ "Inl e"], rule exI [of _ "[ThunkCall]"])
           (simp add: None execute_no_aistudio [of fn e] Inl True)
    next
      case (Some s)
      show ?thesis
      proof (cases "s [ThunkCall]")
        case refused: (Inl e1)
        show ?thesis
          by (rule exI [of _ "Inl e"], rule exI [of _ "[ThunkCall, OpenSelectKey]"])
             (simp add: Some execute_selection_refused [of fn e s e1] Inl True refused)
      next
        case selected: (Inr u)
        show ?thesis
        proof (cases "fn [ThunkCall, OpenSelectKey]")
          case again: (Inl e2)
          show ?thesis
            by (rule exI [of _ "Inl e"], rule exI [of _ "[ThunkCall, OpenSelectKey, ThunkCall]"])
               (simp add: Some execute_retry_fails [of fn e s u e2] Inl True selected again)
        next
          case ok: (Inr v)
          show ?thesis
            by (rule exI [of _ "Inr v"], rule exI [of _ "[ThunkCall, OpenSelectKey, ThunkCall]"])
               (simp add: Some execute_retry_resolves [of fn e s u v] Inl True selected ok)
        qed
      qed
    qed
  qed
qed

theorem at_most_two_attempts_witness:
  "reauth_eligible (Thrown denied) \<and>
   executeWithApiKeyHandling (thunk_of (denied_then (Inr 5))) (map_option selection_of (Some (\<lambda>c. Inr ()))) [] =
     Some (Inr (5::nat), [ThunkCall, OpenSelectKey, ThunkCall]) \<and>
   count_list [ThunkCall, OpenSelectKey, ThunkCall] ThunkCall \<le> 2 \<and>
   count_list [ThunkCall, OpenSelectKey, ThunkCall] OpenSelectKey \<le> 1"
proof -
  have e: "reauth_eligible (Thrown denied)"
    by (simp add: reauth_eligible_def denied_def isPermissionDenied_def)
  have x: "executeWithApiKeyHandling (thunk_of (denied_then (Inr 5)))
             (map_option selection_of (Some (\<lambda>c. Inr ()))) [] =
           Some (Inr (5::nat), [ThunkCall, OpenSelectKey, ThunkCall])"
    using e by (simp add: execute_retry_resolves [of _ "Thrown denied" _ "()"] denied_then_def)
  have "\<exists>r calls.
          executeWithApiKeyHandling (thunk_of (denied_then (Inr (5::nat))))
            (map_option selection_of (Some (\<lambda>c. Inr ()))) [] = Some (r, calls) \<and>
          count_list calls ThunkCall \<le> 2 \<and> count_list calls OpenSelectKey \<le> 1"
    using at_most_two_attempts_one_reselection [of "denied_then (Inr (5::nat))" "Some (\<lambda>c. Inr ())"]
    by - (elim exE conjE, intro exI conjI, assumption+)
  with x e show ?thesis by simp
qed

text \<open>
  The failure of the second run is not what the caller gets: here the first run fails
  with a 403, the key selection resolves, the second run fails with a network error, and
  the call rejects with the 403.
\<close>

theorem retry_failure_dropped_counterexample:
  "executeWithApiKeyHandling (thunk_of (denied_then (Inl (new_Error ''network error''))))
     (Some (selection_of (\<lambda>c. Inr ()))) [] =
     Some (Inl (Thrown denied) :: thrown + nat, [ThunkCall, OpenSelectKey, ThunkCall]) \<and>
   Thrown denied \<noteq> new_Error ''network error''"
proof -
  have e: "reauth_eligible (Thrown denied)"
    by (simp add: reauth_eligible_def denied_def isPermissionDenied_def)
  have "executeWithApiKeyHandling
          (thunk_of (denied_then (Inl (new_Error ''network error'') :: thrown + nat)))
          (Some (selection_of (\<lambda>c. Inr ()))) [] =
        Some (Inl (Thrown denied), [ThunkCall, OpenSelectKey, ThunkCall])"
    using e
    by (simp add: execute_retry_fails [of _ "Thrown denied" _ "()" "new_Error ''network error''"]
        denied_then_def)
  then show ?thesis by (simp add: new_Error_def denied_def)
qed





















end
